theory Spec2Isabelle
  imports Main
begin

section \<open>Python values and exceptions\<close>

text \<open>
  The bot exchanges JSON with two HTTP services and hands the decoded values around
  unchecked, so the model needs Python's dynamically typed values. A decoded JSON value
  is \<open>None\<close>, a \<open>bool\<close>, an \<open>int\<close>, a \<open>float\<close>, a \<open>str\<close>, a \<open>list\<close> or a
  \<open>dict\<close> with string keys. Floating point arithmetic is not modelled: a float is kept
  as the text it was read from. A dict is an association list with distinct keys in
  insertion order. Text is 8-bit: a Python \<open>str\<close> is a \<open>string\<close>.
\<close>

datatype json =
    JNull
  | JBool bool
  | JInt int
  | JFloat string
  | JStr string
  | JArr "json list"
  | JObj "(string \<times> json) list"

text \<open>
  Exceptions are values. The bot only ever distinguishes \<open>json.JSONDecodeError\<close> and
  \<open>asyncio.TimeoutError\<close> from the rest (\<open>except Exception\<close>); the others are named
  after what Python raises at that place.
\<close>

datatype exn =
    KeyError
  | IndexError
  | TypeError
  | AttributeError
  | JSONDecodeError
  | TimeoutError
  | ClientError
  | OverflowError
  | SqliteError

subsection \<open>Operations on \<open>str\<close>\<close>

definition is_upper :: "char \<Rightarrow> bool" where
  "is_upper c = (65 \<le> (of_char c :: nat) \<and> (of_char c :: nat) \<le> 90)"

definition is_lower :: "char \<Rightarrow> bool" where
  "is_lower c = (97 \<le> (of_char c :: nat) \<and> (of_char c :: nat) \<le> 122)"

definition is_cased :: "char \<Rightarrow> bool" where
  "is_cased c = (is_upper c \<or> is_lower c)"

definition to_lower :: "char \<Rightarrow> char" where
  "to_lower c = (if is_upper c then char_of (of_char c + (32::nat)) else c)"

definition to_upper :: "char \<Rightarrow> char" where
  "to_upper c = (if is_lower c then char_of (of_char c - (32::nat)) else c)"

text \<open>\<open>str.lower()\<close>, on the ASCII letters.\<close>

definition str_lower :: "string \<Rightarrow> string" where
  "str_lower s = map to_lower s"

text \<open>
  \<open>str.title()\<close>, on the ASCII letters: a letter that follows a letter is lowered, any
  other letter is raised, everything else is kept. The flag is ``the previous character
  was cased''.
\<close>

fun title_from :: "bool \<Rightarrow> string \<Rightarrow> string" where
  "title_from prev [] = []"
| "title_from prev (c # cs) =
     (if prev then to_lower c else to_upper c) # title_from (is_cased c) cs"

definition str_title :: "string \<Rightarrow> string" where
  "str_title s = title_from False s"

text \<open>
  \<open>str.strip()\<close>: the characters Python counts as whitespace below 256 are
  \<open>0x09..0x0D\<close>, \<open>0x1C..0x20\<close>, \<open>0x85\<close> and \<open>0xA0\<close>.
\<close>

definition is_space :: "char \<Rightarrow> bool" where
  "is_space c = (let n = (of_char c :: nat) in
     (9 \<le> n \<and> n \<le> 13) \<or> (28 \<le> n \<and> n \<le> 32) \<or> n = 133 \<or> n = 160)"

definition str_strip :: "string \<Rightarrow> string" where
  "str_strip s = rev (dropWhile is_space (rev (dropWhile is_space s)))"

text \<open>
  \<open>str.replace(old, new)\<close>: every occurrence of \<open>old\<close>, left to right, without
  overlap. With an empty \<open>old\<close> Python puts \<open>new\<close> before every character and at the end.
\<close>

fun replace_nonempty :: "string \<Rightarrow> string \<Rightarrow> string \<Rightarrow> string" where
  "replace_nonempty old new [] = []"
| "replace_nonempty old new (c # cs) =
     (if old \<noteq> [] \<and> take (length old) (c # cs) = old
      then new @ replace_nonempty old new (drop (length old - 1) cs)
      else c # replace_nonempty old new cs)"

definition str_replace :: "string \<Rightarrow> string \<Rightarrow> string \<Rightarrow> string" where
  "str_replace old new s =
     (if old = [] then new @ concat (map (\<lambda>c. c # new) s)
      else replace_nonempty old new s)"

text \<open>\<open>str(n)\<close> for a natural number: its decimal digits.\<close>

fun digits_of :: "nat \<Rightarrow> string" where
  "digits_of n =
     (if n < 10 then [char_of (48 + n)]
      else digits_of (n div 10) @ [char_of (48 + n mod 10)])"

declare digits_of.simps [simp del]


section \<open>\<open>json.loads\<close>\<close>

text \<open>
  The decoder of Python's \<open>json\<close> module (\<open>json/decoder.py\<close>, \<open>json/scanner.py\<close>) for a
  \<open>str\<close> argument with the default options: \<open>strict\<close> strings, \<open>NaN\<close>, \<open>Infinity\<close> and
  \<open>-Infinity\<close> accepted, a dict built from the pairs of an object. A decoding function
  takes the text that is left and returns the value with the rest of the text; \<open>None\<close> is
  \<open>JSONDecodeError\<close>. The limits of the interpreter (the recursion limit, for a text
  nested about a thousand levels deep, and the limit on the digits of an integer) are
  not modelled.
\<close>

definition json_ws :: "char \<Rightarrow> bool" where
  "json_ws c = (c = CHR '' '' \<or> c = CHR 0x09 \<or> c = CHR 0x0A \<or> c = CHR 0x0D)"

definition skip_ws :: "string \<Rightarrow> string" where
  "skip_ws s = dropWhile json_ws s"

definition is_digit :: "char \<Rightarrow> bool" where
  "is_digit c = (48 \<le> (of_char c :: nat) \<and> (of_char c :: nat) \<le> 57)"

definition digit_val :: "char \<Rightarrow> nat" where
  "digit_val c = of_char c - 48"

definition hex_val :: "char \<Rightarrow> nat option" where
  "hex_val c = (let n = (of_char c :: nat) in
     if 48 \<le> n \<and> n \<le> 57 then Some (n - 48)
     else if 65 \<le> n \<and> n \<le> 70 then Some (n - 55)
     else if 97 \<le> n \<and> n \<le> 102 then Some (n - 87)
     else None)"

text \<open>
  \<open>_decode_uXXXX\<close>: the four hexadecimal digits after \<open>\u\<close>. A code point of 256 or more
  (and with it every surrogate pair) has no 8-bit character: the model's text cannot hold
  the decoded string, and the decoder gives \<open>None\<close> there.
\<close>

definition decode_uXXXX :: "string \<Rightarrow> char option" where
  "decode_uXXXX s =
     (case map hex_val (take 4 s) of
        [Some a, Some b, Some c, Some d] \<Rightarrow>
          (let uni = ((a * 16 + b) * 16 + c) * 16 + d
           in if uni < 256 then Some (char_of uni) else None)
      | _ \<Rightarrow> None)"

definition BACKSLASH :: "char \<Rightarrow> char option" where
  "BACKSLASH e =
     (if e = CHR 0x22 then Some (CHR 0x22)
      else if e = CHR 0x5C then Some (CHR 0x5C)
      else if e = CHR ''/'' then Some (CHR ''/'')
      else if e = CHR ''b'' then Some (CHR 0x08)
      else if e = CHR ''f'' then Some (CHR 0x0C)
      else if e = CHR ''n'' then Some (CHR 0x0A)
      else if e = CHR ''r'' then Some (CHR 0x0D)
      else if e = CHR ''t'' then Some (CHR 0x09)
      else None)"

text \<open>
  \<open>scanstring\<close>, called after the opening quote: up to the closing quote, with the escapes
  decoded; a control character (below \<open>0x20\<close>) inside the string is an error.
\<close>

fun scanstring :: "string \<Rightarrow> (string \<times> string) option" where
  "scanstring [] = None"
| "scanstring (c # cs) =
     (if c = CHR 0x22 then Some ([], cs)
      else if c = CHR 0x5C then
        (case cs of
           [] \<Rightarrow> None
         | e # es \<Rightarrow>
             if e = CHR ''u'' then
               (case decode_uXXXX es of
                  None \<Rightarrow> None
                | Some ch \<Rightarrow> map_option (\<lambda>(t, r). (ch # t, r)) (scanstring (drop 4 es)))
             else
               (case BACKSLASH e of
                  None \<Rightarrow> None
                | Some ch \<Rightarrow> map_option (\<lambda>(t, r). (ch # t, r)) (scanstring es)))
      else if (of_char c :: nat) < 32 then None
      else map_option (\<lambda>(t, r). (c # t, r)) (scanstring cs))"

text \<open>
  \<open>NUMBER_RE\<close> is \<open>(-?(?:0|[1-9][0-9]*))(\.[0-9]+)?([eE][-+]?[0-9]+)?\<close>: an integer part,
  then a fraction and an exponent, each taken only when it is complete. Without fraction
  and exponent the number is an \<open>int\<close>, otherwise a \<open>float\<close>.
\<close>

definition int_of_digits :: "string \<Rightarrow> int" where
  "int_of_digits ds = int (foldl (\<lambda>a c. a * 10 + digit_val c) 0 ds)"

definition match_integer :: "string \<Rightarrow> (string \<times> string) option" where
  "match_integer s =
     (let sign = (if take 1 s = ''-'' then ''-'' else []); s1 = drop (length sign) s
      in case s1 of
           [] \<Rightarrow> None
         | c # cs \<Rightarrow>
             if c = CHR ''0'' then Some (sign @ [c], cs)
             else if is_digit c then Some (sign @ c # takeWhile is_digit cs, dropWhile is_digit cs)
             else None)"

definition match_frac :: "string \<Rightarrow> string \<times> string" where
  "match_frac s =
     (case s of
        c # cs \<Rightarrow>
          if c = CHR ''.'' \<and> takeWhile is_digit cs \<noteq> []
          then (c # takeWhile is_digit cs, dropWhile is_digit cs)
          else ([], s)
      | [] \<Rightarrow> ([], s))"

definition match_exp :: "string \<Rightarrow> string \<times> string" where
  "match_exp s =
     (case s of
        c # cs \<Rightarrow>
          if c = CHR ''e'' \<or> c = CHR ''E'' then
            (let sign = (if take 1 cs = ''-'' \<or> take 1 cs = ''+'' then take 1 cs else []);
                 ds = drop (length sign) cs
             in if takeWhile is_digit ds \<noteq> []
                then (c # sign @ takeWhile is_digit ds, dropWhile is_digit ds)
                else ([], s))
          else ([], s)
      | [] \<Rightarrow> ([], s))"

definition match_number :: "string \<Rightarrow> (json \<times> string) option" where
  "match_number s =
     (case match_integer s of
        None \<Rightarrow> None
      | Some (integer, r1) \<Rightarrow>
          (let (frac, r2) = match_frac r1; (exp, r3) = match_exp r2
           in if frac \<noteq> [] \<or> exp \<noteq> [] then Some (JFloat (integer @ frac @ exp), r3)
              else if take 1 integer = ''-'' then Some (JInt (- int_of_digits (drop 1 integer)), r3)
              else Some (JInt (int_of_digits integer), r3)))"

text \<open>\<open>dict(pairs)\<close>: a later pair replaces the value of an earlier one with the same key.\<close>

fun dict_set :: "(string \<times> json) list \<Rightarrow> string \<Rightarrow> json \<Rightarrow> (string \<times> json) list" where
  "dict_set [] k v = [(k, v)]"
| "dict_set ((k', v') # d) k v = (if k' = k then (k, v) # d else (k', v') # dict_set d k v)"

definition py_dict :: "(string \<times> json) list \<Rightarrow> (string \<times> json) list" where
  "py_dict pairs = foldl (\<lambda>d (k, v). dict_set d k v) [] pairs"

text \<open>
  \<open>scan_once\<close> with the loops of \<open>JSONObject\<close> (\<open>parse_members\<close>, entered after the opening
  quote of a key) and \<open>JSONArray\<close> (\<open>parse_elems\<close>, entered at a value). The first argument
  bounds the depth of the calls; \<open>json_loads\<close> starts above the length of the text, a
  bound that is never reached (lemma \<open>json_loads_fuel\<close> below).
\<close>

fun scan_once :: "nat \<Rightarrow> string \<Rightarrow> (json \<times> string) option"
  and parse_members :: "nat \<Rightarrow> string \<Rightarrow> (string \<times> json) list \<Rightarrow> (json \<times> string) option"
  and parse_elems :: "nat \<Rightarrow> string \<Rightarrow> json list \<Rightarrow> (json \<times> string) option"
where
  "scan_once 0 s = None"
| "scan_once (Suc n) [] = None"
| "scan_once (Suc n) (c # cs) =
     (if c = CHR 0x22 then map_option (\<lambda>(t, r). (JStr t, r)) (scanstring cs)
      else if c = CHR ''{'' then
        (case skip_ws cs of
           [] \<Rightarrow> None
         | d # r \<Rightarrow>
             if d = CHR ''}'' then Some (JObj [], r)
             else if d = CHR 0x22 then parse_members n r []
             else None)
      else if c = CHR ''['' then
        (case skip_ws cs of
           [] \<Rightarrow> None
         | d # r \<Rightarrow> if d = CHR '']'' then Some (JArr [], r) else parse_elems n (d # r) [])
      else if take 4 (c # cs) = ''null'' then Some (JNull, drop 3 cs)
      else if take 4 (c # cs) = ''true'' then Some (JBool True, drop 3 cs)
      else if take 5 (c # cs) = ''false'' then Some (JBool False, drop 4 cs)
      else
        (case match_number (c # cs) of
           Some res \<Rightarrow> Some res
         | None \<Rightarrow>
             if take 3 (c # cs) = ''NaN'' then Some (JFloat ''NaN'', drop 2 cs)
             else if take 8 (c # cs) = ''Infinity'' then Some (JFloat ''Infinity'', drop 7 cs)
             else if take 9 (c # cs) = ''-Infinity'' then Some (JFloat ''-Infinity'', drop 8 cs)
             else None))"
| "parse_members 0 s pairs = None"
| "parse_members (Suc n) s pairs =
     (case scanstring s of
        None \<Rightarrow> None
      | Some (key, r1) \<Rightarrow>
          (case skip_ws r1 of
             [] \<Rightarrow> None
           | colon # r2 \<Rightarrow>
               if colon \<noteq> CHR '':'' then None
               else
                 (case scan_once (Suc n) (skip_ws r2) of
                    None \<Rightarrow> None
                  | Some (v, r3) \<Rightarrow>
                      (case skip_ws r3 of
                         [] \<Rightarrow> None
                       | nextchar # r4 \<Rightarrow>
                           if nextchar = CHR ''}'' then Some (JObj (py_dict (pairs @ [(key, v)])), r4)
                           else if nextchar \<noteq> CHR '','' then None
                           else
                             (case skip_ws r4 of
                                [] \<Rightarrow> None
                              | q # r5 \<Rightarrow>
                                  if q \<noteq> CHR 0x22 then None
                                  else parse_members n r5 (pairs @ [(key, v)]))))))"
| "parse_elems 0 s vals = None"
| "parse_elems (Suc n) s vals =
     (case scan_once (Suc n) s of
        None \<Rightarrow> None
      | Some (v, r1) \<Rightarrow>
          (case skip_ws r1 of
             [] \<Rightarrow> None
           | nextchar # r2 \<Rightarrow>
               if nextchar = CHR '']'' then Some (JArr (vals @ [v]), r2)
               else if nextchar \<noteq> CHR '','' then None
               else parse_elems n (skip_ws r2) (vals @ [v])))"

text \<open>
  \<open>JSONDecoder.decode\<close>: white space, one value, white space, and nothing after it
  (otherwise ``Extra data'').
\<close>

definition json_loads :: "string \<Rightarrow> json option" where
  "json_loads s =
     (case scan_once (Suc (length s)) (skip_ws s) of
        None \<Rightarrow> None
      | Some (obj, r) \<Rightarrow> if skip_ws r = [] then Some obj else None)"


section \<open>Dynamic operations\<close>

text \<open>
  \<open>re.search(r'\{.*\}', text, re.DOTALL)\<close>: the leftmost match starts at the first
  opening brace, and the greedy \<open>.*\<close> (which also crosses line ends) runs to the last
  closing brace of the text. There is a match exactly when a closing brace follows the
  first opening brace.
\<close>

definition re_search_braces :: "string \<Rightarrow> string option" where
  "re_search_braces text =
     (case dropWhile (\<lambda>c. c \<noteq> CHR ''{'') text of
        [] \<Rightarrow> None
      | b # rest \<Rightarrow>
          if CHR ''}'' \<in> set rest
          then Some (b # rev (dropWhile (\<lambda>c. c \<noteq> CHR ''}'') (rev rest)))
          else None)"

text \<open>Sequencing of steps that may raise: the first exception ends the computation.\<close>

definition and_then :: "exn + 'a \<Rightarrow> ('a \<Rightarrow> exn + 'b) \<Rightarrow> exn + 'b" where
  "and_then m f = (case m of Inl e \<Rightarrow> Inl e | Inr x \<Rightarrow> f x)"

text \<open>
  Truth value of an object. A float is false when it is zero; its text decides that by
  its mantissa (an underflow to zero is not modelled, and no result of the bot depends on
  the truth value of a float: a float in any tested place raises at the next step).
\<close>

definition float_is_zero :: "string \<Rightarrow> bool" where
  "float_is_zero txt =
     (txt \<noteq> ''NaN'' \<and> txt \<noteq> ''Infinity'' \<and> txt \<noteq> ''-Infinity'' \<and>
      list_all (\<lambda>c. c = CHR ''0'')
        (filter is_digit (takeWhile (\<lambda>c. c \<noteq> CHR ''e'' \<and> c \<noteq> CHR ''E'') txt)))"

fun truthy :: "json \<Rightarrow> bool" where
  "truthy JNull = False"
| "truthy (JBool b) = b"
| "truthy (JInt i) = (i \<noteq> 0)"
| "truthy (JFloat txt) = (\<not> float_is_zero txt)"
| "truthy (JStr t) = (t \<noteq> [])"
| "truthy (JArr xs) = (xs \<noteq> [])"
| "truthy (JObj d) = (d \<noteq> [])"

text \<open>\<open>obj.get(key, default)\<close>: only a dict has the method.\<close>

fun dict_get :: "json \<Rightarrow> string \<Rightarrow> json \<Rightarrow> exn + json" where
  "dict_get (JObj d) k dflt = Inr (case map_of d k of None \<Rightarrow> dflt | Some v \<Rightarrow> v)"
| "dict_get _ k dflt = Inl AttributeError"

text \<open>\<open>obj['key']\<close> with a string key.\<close>

fun subscript_key :: "json \<Rightarrow> string \<Rightarrow> exn + json" where
  "subscript_key (JObj d) k = (case map_of d k of None \<Rightarrow> Inl KeyError | Some v \<Rightarrow> Inr v)"
| "subscript_key _ k = Inl TypeError"

text \<open>
  \<open>obj[0]\<close>: the first element of a list, the first character of a string; a dict has
  no integer key, since its keys come from JSON and are strings.
\<close>

fun subscript_0 :: "json \<Rightarrow> exn + json" where
  "subscript_0 (JArr []) = Inl IndexError"
| "subscript_0 (JArr (x # xs)) = Inr x"
| "subscript_0 (JStr []) = Inl IndexError"
| "subscript_0 (JStr (c # cs)) = Inr (JStr [c])"
| "subscript_0 (JObj d) = Inl KeyError"
| "subscript_0 _ = Inl TypeError"

fun py_len :: "json \<Rightarrow> exn + nat" where
  "py_len (JArr xs) = Inr (length xs)"
| "py_len (JObj d) = Inr (length d)"
| "py_len (JStr t) = Inr (length t)"
| "py_len _ = Inl TypeError"

text \<open>\<open>obj.title()\<close>: only a \<open>str\<close> has the method.\<close>

fun py_title :: "json \<Rightarrow> exn + string" where
  "py_title (JStr t) = Inr (str_title t)"
| "py_title _ = Inl AttributeError"

text \<open>\<open>json.loads(obj)\<close>: the argument must be text (a decoded value is never bytes).\<close>

fun py_json_loads :: "json \<Rightarrow> exn + json" where
  "py_json_loads (JStr t) =
     (case json_loads t of None \<Rightarrow> Inl JSONDecodeError | Some v \<Rightarrow> Inr v)"
| "py_json_loads _ = Inl TypeError"

section \<open>\<open>WashingMachineAnalyzer\<close>\<close>

text \<open>
  What one HTTP request comes to: the \<open>timeout=30\<close> expires, the client raises another
  exception (no connection, a broken transfer), or a response arrives with its status
  and, when the body decodes as JSON (\<open>await response.json()\<close>), the decoded value.
\<close>

datatype http_outcome =
    TimedOut
  | Failed
  | Response nat "json option"

definition fallback_response :: json where
  "fallback_response = JObj
     [(''action'', JStr ''create_ticket''),
      (''response'', JStr (''I'' @ [CHR 0x27] @ ''m having trouble analyzing your issue right now. '' @
          ''Let me create a support ticket so our team can help you directly.'')),
      (''severity'', JStr ''medium''),
      (''category'', JStr ''other''),
      (''urgency'', JStr ''normal'')]"

text \<open>
  The subexpressions \<open>result["candidates"][0]\<close>, \<open>...["content"]\<close> and
  \<open>...["content"]["parts"]\<close> of lines 109 to 114.
\<close>

definition candidate0 :: "json \<Rightarrow> exn + json" where
  "candidate0 result = and_then (subscript_key result ''candidates'') subscript_0"

definition content0 :: "json \<Rightarrow> exn + json" where
  "content0 result = and_then (candidate0 result) (\<lambda>c. subscript_key c ''content'')"

definition parts0 :: "json \<Rightarrow> exn + json" where
  "parts0 result = and_then (content0 result) (\<lambda>c. subscript_key c ''parts'')"

text \<open>The condition of lines 109 to 112, a chain of \<open>and\<close> evaluated left to right.\<close>

definition has_generated_text :: "json \<Rightarrow> exn + bool" where
  "has_generated_text result =
     and_then (dict_get result ''candidates'' JNull) (\<lambda>a.
       if \<not> truthy a then Inr False
       else and_then (and_then (subscript_key result ''candidates'') py_len) (\<lambda>n.
         if \<not> 0 < n then Inr False
         else and_then (and_then (candidate0 result) (\<lambda>c. dict_get c ''content'' JNull)) (\<lambda>b.
           if \<not> truthy b then Inr False
           else and_then (and_then (content0 result) (\<lambda>c. dict_get c ''parts'' JNull)) (\<lambda>p.
             if \<not> truthy p then Inr False
             else and_then (and_then (parts0 result) py_len) (\<lambda>m. Inr (0 < m))))))"

definition generated_text :: "json \<Rightarrow> exn + json" where
  "generated_text result =
     and_then (and_then (parts0 result) subscript_0) (\<lambda>p. subscript_key p ''text'')"

text \<open>
  Lines 117 to 127: the inner \<open>try\<close> catches \<open>JSONDecodeError\<close> only, and the second
  \<open>json.loads\<close> is called in its handler, so what that call raises leaves the block.
\<close>

definition parse_generated :: "json \<Rightarrow> exn + json" where
  "parse_generated text =
     (case py_json_loads text of
        Inr v \<Rightarrow> Inr v
      | Inl e \<Rightarrow>
          if e \<noteq> JSONDecodeError then Inl e
          else
            (case text of
               JStr t \<Rightarrow>
                 (case re_search_braces t of
                    Some json_match \<Rightarrow> py_json_loads (JStr json_match)
                  | None \<Rightarrow> Inr fallback_response)
             | _ \<Rightarrow> Inl TypeError))"

text \<open>
  The body of the outer \<open>try\<close> (lines 82 to 130). The service is a function of the user's
  message, the only part of the request that varies.
\<close>

definition analyze_body :: "(string \<Rightarrow> http_outcome) \<Rightarrow> string \<Rightarrow> exn + json" where
  "analyze_body api user_message =
     (case api user_message of
        TimedOut \<Rightarrow> Inl TimeoutError
      | Failed \<Rightarrow> Inl ClientError
      | Response status body \<Rightarrow>
          if status \<noteq> 200 then Inr fallback_response
          else
            (case body of
               None \<Rightarrow> Inl ClientError
             | Some result \<Rightarrow>
                 and_then (has_generated_text result) (\<lambda>ok.
                   if ok then and_then (generated_text result) parse_generated
                   else Inr fallback_response)))"

text \<open>\<open>analyze_issue\<close>: both handlers of the outer \<open>try\<close> return the fallback.\<close>

definition analyze_issue :: "(string \<Rightarrow> http_outcome) \<Rightarrow> string \<Rightarrow> json" where
  "analyze_issue api user_message =
     (case analyze_body api user_message of
        Inr analysis \<Rightarrow> analysis
      | Inl e \<Rightarrow> if e = TimeoutError then fallback_response else fallback_response)"


section \<open>\<open>MantisHubIntegration\<close>\<close>

text \<open>
  \<open>str(obj)\<close> for a decoded value. The text of a float, a list or a dict (Python's
  \<open>repr\<close>) is left open: it is whatever the parameter \<open>render\<close> gives.
\<close>

fun py_str :: "(json \<Rightarrow> string) \<Rightarrow> json \<Rightarrow> string" where
  "py_str render JNull = ''None''"
| "py_str render (JBool b) = (if b then ''True'' else ''False'')"
| "py_str render (JInt i) = (if i < 0 then ''-'' @ digits_of (nat (- i)) else digits_of (nat i))"
| "py_str render (JStr t) = t"
| "py_str render v = render v"

record mantis_config =
  base_url :: "string option"
  api_token :: "string option"
  project_id :: int

text \<open>\<open>not os.getenv(...)\<close>: the variable is unset or empty.\<close>

definition unset :: "string option \<Rightarrow> bool" where
  "unset v = (v = None \<or> v = Some [])"

record ticket_data =
  td_summary :: string
  td_description :: string
  td_category :: string
  td_project :: int
  td_priority :: string
  td_severity :: string
  td_reproducibility :: string
  td_additional_information :: string

text \<open>
  \<open>severity_map.get(severity, 'minor')\<close>: a list or a dict cannot be hashed, and the
  lookup raises; any other value that is not one of the three keys gives the default.
\<close>

fun severity_map_get :: "json \<Rightarrow> exn + string" where
  "severity_map_get (JArr xs) = Inl TypeError"
| "severity_map_get (JObj d) = Inl TypeError"
| "severity_map_get (JStr t) =
     Inr (if t = ''low'' then ''trivial''
          else if t = ''medium'' then ''minor''
          else if t = ''high'' then ''major''
          else ''minor'')"
| "severity_map_get _ = Inr ''minor''"

text \<open>
  Lines 200 to 208, inside the \<open>try\<close> whose handlers return \<open>None\<close>: the identifier is
  \<open>str(data.get('issue', {}).get('id'))\<close> when the status is 201.
\<close>

definition issue_id_of :: "(json \<Rightarrow> string) \<Rightarrow> http_outcome \<Rightarrow> string option" where
  "issue_id_of render outcome =
     (case outcome of
        TimedOut \<Rightarrow> None
      | Failed \<Rightarrow> None
      | Response status body \<Rightarrow>
          if status = 201 then
            (case body of
               None \<Rightarrow> None
             | Some data \<Rightarrow>
                 (case and_then (dict_get data ''issue'' (JObj [])) (\<lambda>i. dict_get i ''id'' JNull) of
                    Inl e \<Rightarrow> None
                  | Inr issue_id \<Rightarrow> Some (py_str render issue_id)))
          else None)"

definition create_ticket ::
  "(json \<Rightarrow> string) \<Rightarrow> mantis_config \<Rightarrow> (ticket_data \<Rightarrow> http_outcome) \<Rightarrow>
   string \<Rightarrow> string \<Rightarrow> json \<Rightarrow> json \<Rightarrow> string option \<Rightarrow> exn + string option" where
  "create_ticket render cfg api title description severity category user_id =
     (if unset (base_url cfg) \<or> unset (api_token cfg) then Inr None
      else
        and_then (severity_map_get severity) (\<lambda>sev.
          Inr (issue_id_of render (api
            \<lparr>td_summary = title,
             td_description = description,
             td_category = ''Washing Machine Support'',
             td_project = project_id cfg,
             td_priority = ''normal'',
             td_severity = sev,
             td_reproducibility = ''always'',
             td_additional_information =
               (case user_id of
                  None \<Rightarrow> []
                | Some u \<Rightarrow> if u = [] then [] else ''Discord User ID: '' @ u)\<rparr>))))"

section \<open>\<open>TicketDatabase\<close>\<close>

text \<open>
  The table \<open>tickets\<close>, keyed by \<open>ticket_id\<close>. \<open>INSERT OR REPLACE\<close> overwrites the row of
  the key. \<open>sqlite3\<close> binds \<open>None\<close>, integers of 64 bits (a \<open>bool\<close> as 0 or 1), floats and text; it raises
  \<open>OverflowError\<close> for a larger integer and refuses a list or a dict.
\<close>

record ticket_row =
  row_user_id :: string
  row_username :: string
  row_issue_description :: string
  row_status :: string
  row_severity :: json
  row_category :: json
  row_created_at :: string
  row_updated_at :: string

fun sqlite_bind :: "json \<Rightarrow> exn + json" where
  "sqlite_bind (JArr xs) = Inl SqliteError"
| "sqlite_bind (JObj d) = Inl SqliteError"
| "sqlite_bind (JInt i) =
     (if - (2 ^ 63) \<le> i \<and> i < 2 ^ 63 then Inr (JInt i) else Inl OverflowError)"
| "sqlite_bind (JBool b) = Inr (JInt (if b then 1 else 0))"
| "sqlite_bind v = Inr v"

definition save_ticket ::
  "string \<Rightarrow> (string \<rightharpoonup> ticket_row) \<Rightarrow> string \<Rightarrow> string \<Rightarrow> string \<Rightarrow> string \<Rightarrow>
   json \<Rightarrow> json \<Rightarrow> exn + (string \<rightharpoonup> ticket_row)" where
  "save_ticket now db ticket_id user_id username issue_description severity category =
     and_then (sqlite_bind severity) (\<lambda>sev.
       and_then (sqlite_bind category) (\<lambda>cat.
         Inr (db(ticket_id \<mapsto>
           \<lparr>row_user_id = user_id,
            row_username = username,
            row_issue_description = issue_description,
            row_status = ''Open'',
            row_severity = sev,
            row_category = cat,
            row_created_at = now,
            row_updated_at = now\<rparr>))))"


section \<open>\<open>DiscordWashingMachineBot\<close>\<close>

text \<open>
  The bot's own state: the offers waiting for a reaction (\<open>pending_tickets\<close>, keyed by the
  identifier of the message that carries the offer; the attribute is created on first use
  and read as \<open>{}\<close> before), the latest ticket of each user, and the local database.
\<close>

record ticket_info =
  ti_user_id :: nat
  ti_issue :: string
  ti_analysis :: json

record bot_state =
  pending_tickets :: "nat \<rightharpoonup> ticket_info"
  user_tickets :: "nat \<rightharpoonup> string"
  database :: "string \<rightharpoonup> ticket_row"

definition initial_state :: bot_state where
  "initial_state = \<lparr>pending_tickets = Map.empty, user_tickets = Map.empty, database = Map.empty\<rparr>"

text \<open>
  What the bot is configured with, and what the world answers during one event: the two
  services, the identifier Discord gives to the reply the bot sends, and the clock.
\<close>

record bot_config =
  bot_user_id :: nat
  mantis_cfg :: mantis_config

record env =
  gemini :: "string \<Rightarrow> http_outcome"
  mantis :: "ticket_data \<Rightarrow> http_outcome"
  render :: "json \<Rightarrow> string"
  reply_message_id :: nat
  now :: string

text \<open>
  A message as the handlers read it. \<open>msg_mentions_bot\<close> is \<open>self.user.mentioned_in(message)\<close>;
  \<open>msg_channel_mention\<close> is \<open>None\<close> when the channel has no attribute \<open>mention\<close>.
\<close>

record message =
  msg_content :: string
  msg_author_id :: nat
  msg_author_mention :: string
  msg_author_display_name :: string
  msg_channel_mention :: "string option"
  msg_mentions_bot :: bool

text \<open>
  Discord's own calls (\<open>reply\<close>, \<open>add_reaction\<close>, \<open>typing\<close>) and the connection to the
  database file are taken not to fail; the commands \<open>status\<close>, \<open>tickets\<close> and \<open>help\<close> change
  nothing of the state and are not modelled.
\<close>

text \<open>
  The handlers return nothing: what they do is what they send and what they call. The
  log of one event lists, in order, the replies, the reaction the bot adds, and the call
  to \<open>MantisHubIntegration.create_ticket\<close> with its arguments, with what it returned, and
  with the pending offers as they stand when the call is issued.
\<close>

datatype reply =
    HelpEmbed
  | TroubleshootingEmbed json string string
  | TicketCreatedEmbed string string json
  | TicketFailedEmbed
  | ErrorText

record ticket_call =
  tc_title :: string
  tc_description :: string
  tc_severity :: json
  tc_category :: json
  tc_user_id :: string
  tc_pending :: "nat \<rightharpoonup> ticket_info"
  tc_returned :: "exn + string option"

datatype event =
    Replied reply
  | ReactionAdded nat
  | TicketCall ticket_call

text \<open>
  The result of a handler: the exception that left it, if one did, the log, and the state
  it leaves behind.
\<close>

type_synonym outcome = "exn option \<times> event list \<times> bot_state"

text \<open>\<open>send_solution_response\<close> (lines 401 to 431).\<close>

definition send_solution_response :: "env \<Rightarrow> bot_state \<Rightarrow> message \<Rightarrow> json \<Rightarrow> outcome" where
  "send_solution_response e s m analysis =
     (case subscript_key analysis ''response'' of
        Inl x \<Rightarrow> (Some x, [], s)
      | Inr description \<Rightarrow>
          (case and_then (subscript_key analysis ''severity'') py_title of
             Inl x \<Rightarrow> (Some x, [], s)
           | Inr severity \<Rightarrow>
               (case and_then (subscript_key analysis ''category'') py_title of
                  Inl x \<Rightarrow> (Some x, [], s)
                | Inr category \<Rightarrow>
                    (None,
                     [Replied (TroubleshootingEmbed description severity category),
                      ReactionAdded (reply_message_id e)],
                     s\<lparr>pending_tickets := (pending_tickets s)(reply_message_id e \<mapsto>
                        \<lparr>ti_user_id = msg_author_id m,
                         ti_issue = msg_content m,
                         ti_analysis = analysis\<rparr>)\<rparr>))))"

text \<open>
  The description of a ticket (lines 440 to 449): a template of seven fields, stripped.
  No \<open>get\<close> in it can raise once the first one of the function has passed.
\<close>

definition ticket_description :: "env \<Rightarrow> message \<Rightarrow> string \<Rightarrow> json \<Rightarrow> string \<Rightarrow> exn + string" where
  "ticket_description e m issue_description analysis category =
     and_then (dict_get analysis ''severity'' (JStr ''medium'')) (\<lambda>severity.
     and_then (dict_get analysis ''urgency'' (JStr ''normal'')) (\<lambda>urgency.
     and_then (dict_get analysis ''response'' (JStr ''No additional analysis available'')) (\<lambda>response.
       Inr (str_strip
         ([CHR 0x0A] @ ''**User:** '' @ msg_author_mention m @ '' ('' @ msg_author_display_name m @ '')'' @
          [CHR 0x0A] @ ''**Issue:** '' @ issue_description @
          [CHR 0x0A] @ ''**Severity:** '' @ py_str (render e) severity @
          [CHR 0x0A] @ ''**Category:** '' @ category @
          [CHR 0x0A] @ ''**Urgency:** '' @ py_str (render e) urgency @
          [CHR 0x0A] @ ''**Channel:** '' @
             (case msg_channel_mention m of Some c \<Rightarrow> c | None \<Rightarrow> ''DM'') @
          [CHR 0x0A] @
          [CHR 0x0A] @ ''**AI Analysis:** '' @ py_str (render e) response @
          [CHR 0x0A] @ ''        '')))))"

text \<open>
  \<open>create_support_ticket\<close> (lines 433 to 495), in two parts. \<open>ticket_created_or_failed\<close> is
  the \<open>if ticket_id:\<close> of lines 460 to 495, entered with what the ticket store returned:
  an empty identifier counts as none.
\<close>

definition ticket_created_or_failed ::
  "env \<Rightarrow> bot_state \<Rightarrow> message \<Rightarrow> string \<Rightarrow> json \<Rightarrow> json \<Rightarrow> json \<Rightarrow> event \<Rightarrow>
   string option \<Rightarrow> outcome" where
  "ticket_created_or_failed e s m issue_description analysis severity category call ticket_id =
     (case ticket_id of
        None \<Rightarrow> (None, [call, Replied TicketFailedEmbed], s)
      | Some tid \<Rightarrow>
          if tid = [] then (None, [call, Replied TicketFailedEmbed], s)
          else
            (case save_ticket (now e) (database s) tid (digits_of (msg_author_id m))
                    (msg_author_display_name m) issue_description severity category of
               Inl x \<Rightarrow> (Some x, [call], s)
             | Inr db \<Rightarrow>
                 (let s' = s\<lparr>database := db,
                             user_tickets := (user_tickets s)(msg_author_id m \<mapsto> tid)\<rparr>
                  in case py_title severity of
                       Inl x \<Rightarrow> (Some x, [call], s')
                     | Inr severity_title \<Rightarrow>
                         (case dict_get analysis ''response''
                                 (JStr (''Our support team will review your issue '' @
                                        ''and get back to you soon.'')) of
                            Inl x \<Rightarrow> (Some x, [call], s')
                          | Inr next_steps \<Rightarrow>
                              (None,
                               [call, Replied (TicketCreatedEmbed tid severity_title next_steps)],
                               s')))))"

text \<open>
  Lines 433 to 458: the title, the description and the call of the ticket store. The
  keyword arguments of the call are evaluated before it, so nothing is called when one of
  them raises.
\<close>

definition create_support_ticket ::
  "bot_config \<Rightarrow> env \<Rightarrow> bot_state \<Rightarrow> message \<Rightarrow> string \<Rightarrow> json \<Rightarrow> outcome" where
  "create_support_ticket cfg e s m issue_description analysis =
     (case dict_get analysis ''category'' (JStr ''general'') of
        Inl x \<Rightarrow> (Some x, [], s)
      | Inr category \<Rightarrow>
     (case py_title category of
        Inl x \<Rightarrow> (Some x, [], s)
      | Inr category_title \<Rightarrow>
     (case ticket_description e m issue_description analysis (py_str (render e) category) of
        Inl x \<Rightarrow> (Some x, [], s)
      | Inr description \<Rightarrow>
     (case dict_get analysis ''severity'' (JStr ''medium'') of
        Inl x \<Rightarrow> (Some x, [], s)
      | Inr severity \<Rightarrow>
     (let title = ''Washing Machine Issue - '' @ category_title;
          user_id = digits_of (msg_author_id m);
          returned = create_ticket (render e) (mantis_cfg cfg) (mantis e)
                       title description severity category (Some user_id);
          call = TicketCall
            \<lparr>tc_title = title, tc_description = description, tc_severity = severity,
             tc_category = category, tc_user_id = user_id,
             tc_pending = pending_tickets s, tc_returned = returned\<rparr>
      in case returned of
           Inl x \<Rightarrow> (Some x, [call], s)
         | Inr ticket_id \<Rightarrow>
             ticket_created_or_failed e s m issue_description analysis severity category
               call ticket_id)))))"

text \<open>
  \<open>handle_support_request\<close> (lines 359 to 399). Everything raised in the \<open>try\<close> is caught and
  answered with the error text; what the failed call had already logged and changed stays.
\<close>

definition clean_content :: "bot_config \<Rightarrow> message \<Rightarrow> string" where
  "clean_content cfg m =
     (if msg_mentions_bot m
      then str_strip (str_replace (''<@'' @ digits_of (bot_user_id cfg) @ ''>'') [] (msg_content m))
      else msg_content m)"

text \<open>The condition of line 366: nothing is left, or a greeting.\<close>

definition greeting :: "string \<Rightarrow> bool" where
  "greeting content = (content = [] \<or> str_lower content \<in> set [''hi'', ''hello'', ''help''])"

definition handle_support_request :: "bot_config \<Rightarrow> env \<Rightarrow> bot_state \<Rightarrow> message \<Rightarrow> outcome" where
  "handle_support_request cfg e s m =
     (let content = clean_content cfg m
      in if greeting content
         then (None, [Replied HelpEmbed], s)
         else
           (let analysis = analyze_issue (gemini e) content;
                (raised, log, s') =
                  (case subscript_key analysis ''action'' of
                     Inl x \<Rightarrow> (Some x, [], s)
                   | Inr action \<Rightarrow>
                       if action = JStr ''provide_solution''
                       then send_solution_response e s m analysis
                       else create_support_ticket cfg e s m content analysis)
            in case raised of
                 None \<Rightarrow> (None, log, s')
               | Some x \<Rightarrow> (None, log @ [Replied ErrorText], s')))"

text \<open>
  \<open>on_reaction_add\<close> (lines 497 to 521). The reaction is on the message \<open>message_id\<close>; the
  synthetic message has the reacting user as author, the stored issue as content and the
  channel of the original message. \<open>del\<close> raises \<open>KeyError\<close> for a key that is not there.
\<close>

definition ticket_emoji :: string where
  \<comment> \<open>the ticket emoji U+1F3AB, as its four bytes in UTF-8\<close>
  "ticket_emoji = [CHR 0xF0, CHR 0x9F, CHR 0x8E, CHR 0xAB]"

record reactor =
  user_is_bot :: bool
  user_ident :: nat
  user_mention :: string
  user_display_name :: string

definition on_reaction_add ::
  "bot_config \<Rightarrow> env \<Rightarrow> bot_state \<Rightarrow> string \<Rightarrow> nat \<Rightarrow> string option \<Rightarrow> reactor \<Rightarrow> outcome" where
  "on_reaction_add cfg e s emoji message_id channel user =
     (if user_is_bot user \<or> emoji \<noteq> ticket_emoji then (None, [], s)
      else
        (case pending_tickets s message_id of
           None \<Rightarrow> (None, [], s)
         | Some info \<Rightarrow>
             if ti_user_id info \<noteq> user_ident user then (None, [], s)
             else
               (let (raised, log, s') =
                      create_support_ticket cfg e s
                        \<lparr>msg_content = ti_issue info,
                         msg_author_id = user_ident user,
                         msg_author_mention = user_mention user,
                         msg_author_display_name = user_display_name user,
                         msg_channel_mention = channel,
                         msg_mentions_bot = False\<rparr>
                        (ti_issue info) (ti_analysis info)
                in case raised of
                     Some x \<Rightarrow> (Some x, log, s')
                   | None \<Rightarrow>
                       (case pending_tickets s' message_id of
                          None \<Rightarrow> (Some KeyError, log, s')
                        | Some _ \<Rightarrow>
                            (None, log,
                             s'\<lparr>pending_tickets := (pending_tickets s')(message_id := None)\<rparr>)))))"

text \<open>
  The handlers are coroutines: while one awaits the ticket store (line 452) the bot
  handles other events, and the state may have changed when the handler goes on.
  \<open>on_reaction_add_resumed\<close> is \<open>on_reaction_add\<close> with that made explicit: the checks of
  lines 499 to 506 and the arguments of the call read the state \<open>s\<close> in which the handler
  starts; what follows the call (lines 460 to 495, and the \<open>del\<close> of line 521) reads and
  changes the state \<open>resumed\<close> in which it goes on. When the call itself raises, or is not
  reached, the handler was never suspended. With \<open>resumed = s\<close> both functions are the
  ones above.
\<close>

definition create_support_ticket_resumed ::
  "bot_config \<Rightarrow> env \<Rightarrow> bot_state \<Rightarrow> bot_state \<Rightarrow> message \<Rightarrow> string \<Rightarrow> json \<Rightarrow> outcome" where
  "create_support_ticket_resumed cfg e s resumed m issue_description analysis =
     (case dict_get analysis ''category'' (JStr ''general'') of
        Inl x \<Rightarrow> (Some x, [], s)
      | Inr category \<Rightarrow>
     (case py_title category of
        Inl x \<Rightarrow> (Some x, [], s)
      | Inr category_title \<Rightarrow>
     (case ticket_description e m issue_description analysis (py_str (render e) category) of
        Inl x \<Rightarrow> (Some x, [], s)
      | Inr description \<Rightarrow>
     (case dict_get analysis ''severity'' (JStr ''medium'') of
        Inl x \<Rightarrow> (Some x, [], s)
      | Inr severity \<Rightarrow>
     (let title = ''Washing Machine Issue - '' @ category_title;
          user_id = digits_of (msg_author_id m);
          returned = create_ticket (render e) (mantis_cfg cfg) (mantis e)
                       title description severity category (Some user_id);
          call = TicketCall
            \<lparr>tc_title = title, tc_description = description, tc_severity = severity,
             tc_category = category, tc_user_id = user_id,
             tc_pending = pending_tickets s, tc_returned = returned\<rparr>
      in case returned of
           Inl x \<Rightarrow> (Some x, [call], s)
         | Inr ticket_id \<Rightarrow>
             ticket_created_or_failed e resumed m issue_description analysis severity category
               call ticket_id)))))"

definition on_reaction_add_resumed ::
  "bot_config \<Rightarrow> env \<Rightarrow> bot_state \<Rightarrow> bot_state \<Rightarrow> string \<Rightarrow> nat \<Rightarrow> string option \<Rightarrow>
   reactor \<Rightarrow> outcome" where
  "on_reaction_add_resumed cfg e s resumed emoji message_id channel user =
     (if user_is_bot user \<or> emoji \<noteq> ticket_emoji then (None, [], s)
      else
        (case pending_tickets s message_id of
           None \<Rightarrow> (None, [], s)
         | Some info \<Rightarrow>
             if ti_user_id info \<noteq> user_ident user then (None, [], s)
             else
               (let (raised, log, s') =
                      create_support_ticket_resumed cfg e s resumed
                        \<lparr>msg_content = ti_issue info,
                         msg_author_id = user_ident user,
                         msg_author_mention = user_mention user,
                         msg_author_display_name = user_display_name user,
                         msg_channel_mention = channel,
                         msg_mentions_bot = False\<rparr>
                        (ti_issue info) (ti_analysis info)
                in case raised of
                     Some x \<Rightarrow> (Some x, log, s')
                   | None \<Rightarrow>
                       (case pending_tickets s' message_id of
                          None \<Rightarrow> (Some KeyError, log, s')
                        | Some _ \<Rightarrow>
                            (None, log,
                             s'\<lparr>pending_tickets := (pending_tickets s')(message_id := None)\<rparr>)))))"


section \<open>Observations and reachable states\<close>

text \<open>What a log shows: the replies, and the calls to the ticket store.\<close>

fun replies_of :: "event list \<Rightarrow> reply list" where
  "replies_of [] = []"
| "replies_of (Replied r # evs) = r # replies_of evs"
| "replies_of (_ # evs) = replies_of evs"

fun ticket_calls :: "event list \<Rightarrow> ticket_call list" where
  "ticket_calls [] = []"
| "ticket_calls (TicketCall c # evs) = c # ticket_calls evs"
| "ticket_calls (_ # evs) = ticket_calls evs"

text \<open>For each call to the ticket store in a log: was the offer pending when it was issued?\<close>

definition pending_when_called :: "event list \<Rightarrow> nat \<Rightarrow> bool list" where
  "pending_when_called log message_id =
     map (\<lambda>c. tc_pending c message_id \<noteq> None) (ticket_calls log)"




subsection \<open>The enumerated values\<close>



subsection \<open>The parsing policy in the specification's words\<close>

text \<open>
  Follows the specification, not the source: the first balanced \<open>{...}\<close> span of a text
  starts at its first opening brace and ends where the braces opened since then are all
  closed. \<open>spec_parse\<close> is the two-tier policy with that span: the whole text first, then
  the span, then the fallback.
\<close>

fun spec_balanced_rest :: "nat \<Rightarrow> string \<Rightarrow> string option" where
  "spec_balanced_rest depth [] = None"
| "spec_balanced_rest depth (c # cs) =
     (if c = CHR ''{'' then map_option ((#) c) (spec_balanced_rest (Suc depth) cs)
      else if c = CHR ''}'' then
        (if depth \<le> 1 then Some [c] else map_option ((#) c) (spec_balanced_rest (depth - 1) cs))
      else map_option ((#) c) (spec_balanced_rest depth cs))"

definition spec_first_balanced_span :: "string \<Rightarrow> string option" where
  "spec_first_balanced_span text =
     (case dropWhile (\<lambda>c. c \<noteq> CHR ''{'') text of
        [] \<Rightarrow> None
      | b # rest \<Rightarrow> map_option ((#) b) (spec_balanced_rest 1 rest))"

definition spec_parse :: "string \<Rightarrow> json" where
  "spec_parse text =
     (case json_loads text of
        Some v \<Rightarrow> v
      | None \<Rightarrow>
          (case spec_first_balanced_span text of
             None \<Rightarrow> fallback_response
           | Some span \<Rightarrow>
               (case json_loads span of Some v \<Rightarrow> v | None \<Rightarrow> fallback_response)))"

subsection \<open>Example inputs\<close>

text \<open>
  A reply of the classifier service that carries \<open>text\<close> as its generated text, a ticket
  store that answers 201 with an identifier, and a bot, a world and a user to run them.
\<close>

definition gemini_reply :: "string \<Rightarrow> http_outcome" where
  "gemini_reply text = Response 200 (Some (JObj
     [(''candidates'', JArr [JObj [(''content'', JObj [(''parts'', JArr
        [JObj [(''text'', JStr text)]])])]])]))"

definition mantis_created :: "json \<Rightarrow> http_outcome" where
  "mantis_created issue_id = Response 201 (Some (JObj [(''issue'', JObj [(''id'', issue_id)])]))"

definition example_config :: bot_config where
  "example_config =
     \<lparr>bot_user_id = 99,
      mantis_cfg = \<lparr>base_url = Some ''https://mantis.example/api/rest'',
                    api_token = Some ''token'', project_id = 1\<rparr>\<rparr>"

definition example_env :: "http_outcome \<Rightarrow> http_outcome \<Rightarrow> env" where
  "example_env classifier store =
     \<lparr>gemini = (\<lambda>user_message. classifier),
      mantis = (\<lambda>ticket. store),
      render = (\<lambda>v. ''?''),
      reply_message_id = 7,
      now = ''2024-05-01T10:00:00''\<rparr>"

definition example_message :: "string \<Rightarrow> message" where
  "example_message text =
     \<lparr>msg_content = text,
      msg_author_id = 5,
      msg_author_mention = ''<@5>'',
      msg_author_display_name = ''ann'',
      msg_channel_mention = None,
      msg_mentions_bot = False\<rparr>"

definition example_user :: "nat \<Rightarrow> reactor" where
  "example_user ident =
     \<lparr>user_is_bot = False,
      user_ident = ident,
      user_mention = ''<@'' @ digits_of ident @ ''>'',
      user_display_name = ''ann''\<rparr>"

definition example_offer_state :: bot_state where
  "example_offer_state =
     initial_state\<lparr>pending_tickets :=
       [7 \<mapsto> \<lparr>ti_user_id = 5, ti_issue = ''my door is stuck'',
               ti_analysis = JObj
                 [(''action'', JStr ''provide_solution''), (''response'', JStr ''push it''),
                  (''severity'', JStr ''low''), (''category'', JStr ''door''),
                  (''urgency'', JStr ''normal'')]\<rparr>]\<rparr>"

section \<open>The bound of the decoder\<close>

text \<open>
  Every decoding function consumes at least one character, so a bound above the length
  of the text is never reached: the result of \<open>json_loads\<close> is the same for every larger
  bound.
\<close>

lemma skip_ws_length: "length (skip_ws s) \<le> length s"
  by (simp add: skip_ws_def length_dropWhile_le)

lemma scanstring_shorter: "scanstring s = Some (t, r) \<Longrightarrow> length r < length s"
proof (induction s arbitrary: t r rule: scanstring.induct)
  case 1
  then show ?case by simp
next
  case (2 c cs)
  show ?case
  proof (cases "c = CHR 0x22")
    case True
    with 2(4) show ?thesis by simp
  next
    case nq: False
    show ?thesis
    proof (cases "c = CHR 0x5C")
      case True
      show ?thesis
      proof (cases cs)
        case Nil
        with 2(4) nq True show ?thesis by simp
      next
        case (Cons e es)
        show ?thesis
        proof (cases "e = CHR ''u''")
          case u: True
          with 2(4) nq True Cons obtain ch t' where
            "decode_uXXXX es = Some ch" "scanstring (drop 4 es) = Some (t', r)"
            by (auto split: option.splits)
          with 2(1)[OF nq True Cons u] have "length r < length (drop 4 es)" by simp
          with Cons show ?thesis by simp
        next
          case nu: False
          with 2(4) nq True Cons obtain ch t' where
            "BACKSLASH e = Some ch" "scanstring es = Some (t', r)"
            by (auto split: option.splits)
          with 2(2)[OF nq True Cons nu] have "length r < length es" by simp
          with Cons show ?thesis by simp
        qed
      qed
    next
      case nb: False
      with 2(4) nq obtain t' where "scanstring cs = Some (t', r)" "\<not> (of_char c :: nat) < 32"
        by (auto split: if_splits)
      with 2(3)[OF nq nb] show ?thesis by simp
    qed
  qed
qed

lemma match_frac_length: "match_frac s = (f, r) \<Longrightarrow> length r \<le> length s"
  by (auto simp: match_frac_def split: list.splits if_splits
      intro: le_trans[OF length_dropWhile_le])

lemma match_exp_length: "match_exp s = (x, r) \<Longrightarrow> length r \<le> length s"
  by (auto simp: match_exp_def Let_def split: list.splits if_splits
      intro!: le_trans[OF length_dropWhile_le])

lemma match_integer_shorter: "match_integer s = Some (i, r) \<Longrightarrow> length r < length s"
  by (auto simp: match_integer_def Let_def split: list.splits if_splits
      dest!: arg_cong[where f=length] intro: le_less_trans[OF length_dropWhile_le])


lemma match_number_shorter: "match_number s = Some (v, r) \<Longrightarrow> length r < length s"
proof -
  assume m: "match_number s = Some (v, r)"
  then obtain i r1 where i: "match_integer s = Some (i, r1)"
    by (auto simp: match_number_def split: option.splits)
  obtain f r2 where f: "match_frac r1 = (f, r2)" by (cases "match_frac r1")
  obtain x r3 where x: "match_exp r2 = (x, r3)" by (cases "match_exp r2")
  from m i f x have "r = r3" by (auto simp: match_number_def split: if_splits)
  with match_integer_shorter[OF i] match_frac_length[OF f] match_exp_length[OF x]
  show ?thesis by simp
qed

lemma decoder_shorter:
  "scan_once n s = Some (v, r) \<Longrightarrow> length r < length s"
  "parse_members n s pairs = Some (v, r) \<Longrightarrow> length r < length s"
  "parse_elems n s vals = Some (v, r) \<Longrightarrow> length r < length s"
proof (induction n s and n s pairs and n s vals arbitrary: v r and v r and v r
    rule: scan_once_parse_members_parse_elems.induct)
  case (3 n c cs)
  have ws: "length (skip_ws cs) \<le> length cs" by (rule skip_ws_length)
  show ?case
  proof (cases "c = CHR 0x22")
    case True
    with 3(3) show ?thesis by (auto dest: scanstring_shorter)
  next
    case nq: False
    show ?thesis
    proof (cases "c = CHR ''{''")
      case True
      show ?thesis
      proof (cases "skip_ws cs")
        case Nil
        with 3(3) nq True show ?thesis by simp
      next
        case (Cons d rest)
        with 3(3) nq True 3(1)[OF nq True Cons] ws show ?thesis
          by (auto split: if_splits)
      qed
    next
      case no: False
      show ?thesis
      proof (cases "c = CHR ''[''")
        case True
        show ?thesis
        proof (cases "skip_ws cs")
          case Nil
          with 3(3) nq no True show ?thesis by simp
        next
          case (Cons d rest)
          with 3(3) nq no True 3(2)[OF nq no True Cons] ws show ?thesis
            by (auto split: if_splits)
        qed
      next
        case na: False
        with 3(3) nq no show ?thesis
          by (auto split: if_splits option.splits dest: match_number_shorter)
      qed
    qed
  qed
next
  case (5 n s pairs)
  from 5(3) obtain key r1 where k: "scanstring s = Some (key, r1)"
    by (auto split: option.splits)
  from 5(3) k obtain colon r2 where c: "skip_ws r1 = colon # r2" "colon = CHR '':''"
    by (auto split: list.splits if_splits)
  from 5(3) k c obtain v1 r3 where v: "scan_once (Suc n) (skip_ws r2) = Some (v1, r3)"
    by (auto split: option.splits)
  from 5(3) k c v obtain nextchar r4 where nx: "skip_ws r3 = nextchar # r4"
    by (auto split: list.splits)
  have l1: "length r1 < length s" using k by (rule scanstring_shorter)
  have l2: "length r2 < length r1" using c(1) skip_ws_length[of r1] by simp
  have colon: "\<not> colon \<noteq> CHR '':''" using c(2) by simp
  have l3: "length r3 < length (skip_ws r2)" using 5(1)[OF k refl c(1) colon v] .
  have l4: "length r4 < length r3" using nx skip_ws_length[of r3] by simp
  have l: "length r4 < length s" using l1 l2 l3 l4 skip_ws_length[of r2] by simp
  show ?case
  proof (cases "nextchar = CHR ''}''")
    case True
    with 5(3) k c v nx l show ?thesis by simp
  next
    case nc: False
    with 5(3) k c v nx have comma: "nextchar = CHR '',''" by (auto split: if_splits)
    from 5(3) k c v nx nc comma obtain q r5 where q: "skip_ws r4 = q # r5" "q = CHR 0x22"
      by (auto split: list.splits if_splits)
    with 5(3) k c v nx nc comma have rec: "parse_members n r5 (pairs @ [(key, v1)]) = Some (v, r)"
      by simp
    have nn: "\<not> nextchar \<noteq> CHR '',''" "\<not> q \<noteq> CHR 0x22" using comma q(2) by simp_all
    have "length r < length r5"
      using 5(2)[OF k refl c(1) colon v refl nx nc nn(1) q(1) nn(2) rec] .
    moreover have "length r5 < length r4" using q(1) skip_ws_length[of r4] by simp
    ultimately show ?thesis using l by simp
  qed
next
  case (7 n s vals)
  from 7(3) obtain v1 r1 where v: "scan_once (Suc n) s = Some (v1, r1)"
    by (auto split: option.splits)
  from 7(3) v obtain nextchar r2 where nx: "skip_ws r1 = nextchar # r2"
    by (auto split: list.splits)
  have l1: "length r1 < length s" using 7(1)[OF v] .
  have l2: "length r2 < length r1" using nx skip_ws_length[of r1] by simp
  show ?case
  proof (cases "nextchar = CHR '']''")
    case True
    with 7(3) v nx l1 l2 show ?thesis by simp
  next
    case nc: False
    with 7(3) v nx have comma: "nextchar = CHR '',''" by (auto split: if_splits)
    with 7(3) v nx nc have rec: "parse_elems n (skip_ws r2) (vals @ [v1]) = Some (v, r)" by simp
    have nn: "\<not> nextchar \<noteq> CHR '',''" using comma by simp
    have "length r < length (skip_ws r2)"
      using 7(2)[OF v refl nx nc nn rec] .
    with l1 l2 skip_ws_length[of r2] show ?thesis by simp
  qed
qed simp_all


lemma decoder_fuel:
  "length s < n \<Longrightarrow> length s < m \<Longrightarrow> scan_once n s = scan_once m s"
  "length s < n \<Longrightarrow> length s < m \<Longrightarrow> parse_members n s pairs = parse_members m s pairs"
  "length s < n \<Longrightarrow> length s < m \<Longrightarrow> parse_elems n s vals = parse_elems m s vals"
proof (induction n s and n s pairs and n s vals arbitrary: m and m and m
    rule: scan_once_parse_members_parse_elems.induct)
  case (2 n)
  then show ?case by (cases m) simp_all
next
  case (3 n c cs)
  from 3(4) obtain m' where m: "m = Suc m'" by (cases m) auto
  have ws: "length (skip_ws cs) \<le> length cs" by (rule skip_ws_length)
  show ?case
  proof (cases "skip_ws cs")
    case Nil
    then show ?thesis unfolding m by simp
  next
    case (Cons d rest)
    with ws have rest: "length rest < n" "length rest < m'" "length (d # rest) < n" "length (d # rest) < m'"
      using 3(3,4) m by simp_all
    have "c \<noteq> CHR 0x22 \<Longrightarrow> c = CHR ''{'' \<Longrightarrow> d \<noteq> CHR ''}'' \<Longrightarrow> d = CHR 0x22 \<Longrightarrow>
        parse_members n rest [] = parse_members m' rest []"
      using 3(1)[OF _ _ Cons _ _ rest(1,2)] by simp
    moreover have "c \<noteq> CHR 0x22 \<Longrightarrow> c \<noteq> CHR ''{'' \<Longrightarrow> c = CHR ''['' \<Longrightarrow> d \<noteq> CHR '']'' \<Longrightarrow>
        parse_elems n (d # rest) [] = parse_elems m' (d # rest) []"
      using 3(2)[OF _ _ _ Cons _ rest(3,4)] by simp
    ultimately show ?thesis unfolding m using Cons by simp
  qed
next
  case (5 n s pairs)
  from 5(4) obtain m' where m: "m = Suc m'" by (cases m) auto
  show ?case
  proof (cases "scanstring s")
    case None
    then show ?thesis unfolding m by simp
  next
    case (Some kr)
    obtain key r1 where kr: "kr = (key, r1)" by (cases kr)
    have l1: "length r1 < length s" using Some kr scanstring_shorter by simp
    show ?thesis
    proof (cases "skip_ws r1")
      case Nil
      with Some kr show ?thesis unfolding m by simp
    next
      case colon: (Cons colon r2)
      show ?thesis
      proof (cases "colon = CHR '':''")
        case False
        with Some kr colon show ?thesis unfolding m by simp
      next
        case True
        then have nn: "\<not> colon \<noteq> CHR '':''" by simp
        have l2: "length (skip_ws r2) < length s"
          using l1 colon skip_ws_length[of r1] skip_ws_length[of r2] by simp
        have v: "scan_once (Suc n) (skip_ws r2) = scan_once (Suc m') (skip_ws r2)"
          using 5(1)[OF Some kr[symmetric] colon nn, of "Suc m'"] l2 5(3,4) m by simp
        show ?thesis
        proof (cases "scan_once (Suc n) (skip_ws r2)")
          case None
          with v Some kr colon True show ?thesis unfolding m by simp
        next
          case v1: (Some vr)
          obtain v1 r3 where vr: "vr = (v1, r3)" by (cases vr)
          have vn: "scan_once (Suc n) (skip_ws r2) = Some (v1, r3)" using v1 vr by simp
          have vm: "scan_once (Suc m') (skip_ws r2) = Some (v1, r3)" using v v1 vr by simp
          have l3: "length r3 < length s" using decoder_shorter(1)[of "Suc n" "skip_ws r2" v1 r3] v1 vr l2
            by simp
          show ?thesis
          proof (cases "skip_ws r3")
            case Nil
            with vn vm Some kr colon True show ?thesis unfolding m by simp
          next
            case nx: (Cons nextchar r4)
            show ?thesis
            proof (cases "nextchar \<noteq> CHR ''}'' \<and> nextchar = CHR '',''")
              case False
              with vn vm Some kr colon True nx show ?thesis unfolding m by auto
            next
              case cont: True
              show ?thesis
              proof (cases "skip_ws r4")
                case Nil
                with vn vm Some kr colon True nx cont show ?thesis unfolding m by simp
              next
                case q: (Cons q r5)
                show ?thesis
                proof (cases "q = CHR 0x22")
                  case False
                  with vn vm Some kr colon True nx cont q show ?thesis unfolding m by simp
                next
                  case quote: True
                  have l5: "length r5 < length s"
                    using l3 nx q skip_ws_length[of r3] skip_ws_length[of r4] by simp
                  have n1: "\<not> nextchar = CHR ''}''" "\<not> nextchar \<noteq> CHR '',''" "\<not> q \<noteq> CHR 0x22"
                    using cont quote by simp_all
                  have "parse_members n r5 (pairs @ [(key, v1)]) = parse_members m' r5 (pairs @ [(key, v1)])"
                    using 5(2)[OF Some kr[symmetric] colon nn v1 vr[symmetric] nx n1(1,2) q n1(3), of m']
                      l5 5(3,4) m by simp
                  with vn vm Some kr colon True nx cont q quote show ?thesis unfolding m by simp
                qed
              qed
            qed
          qed
        qed
      qed
    qed
  qed
next
  case (7 n s vals)
  from 7(4) obtain m' where m: "m = Suc m'" by (cases m) auto
  have v: "scan_once (Suc n) s = scan_once (Suc m') s"
    using 7(1)[of "Suc m'"] 7(3,4) m by simp
  show ?case
  proof (cases "scan_once (Suc n) s")
    case None
    with v show ?thesis unfolding m by simp
  next
    case v1: (Some vr)
    obtain v1 r1 where vr: "vr = (v1, r1)" by (cases vr)
    have vn: "scan_once (Suc n) s = Some (v1, r1)" using v1 vr by simp
    have vm: "scan_once (Suc m') s = Some (v1, r1)" using v v1 vr by simp
    have l1: "length r1 < length s" using decoder_shorter(1)[of "Suc n" s v1 r1] v1 vr by simp
    show ?thesis
    proof (cases "skip_ws r1")
      case Nil
      with vn vm show ?thesis unfolding m by simp
    next
      case nx: (Cons nextchar r2)
      show ?thesis
      proof (cases "nextchar \<noteq> CHR '']'' \<and> nextchar = CHR '',''")
        case False
        with vn vm nx show ?thesis unfolding m by auto
      next
        case cont: True
        have l2: "length (skip_ws r2) < length s"
          using l1 nx skip_ws_length[of r1] skip_ws_length[of r2] by simp
        have n1: "\<not> nextchar = CHR '']''" "\<not> nextchar \<noteq> CHR '',''" using cont by simp_all
        have "parse_elems n (skip_ws r2) (vals @ [v1]) = parse_elems m' (skip_ws r2) (vals @ [v1])"
          using 7(2)[OF v1 vr[symmetric] nx n1, of m'] l2 7(3,4) m by simp
        with vn vm nx cont show ?thesis unfolding m by simp
      qed
    qed
  qed
qed simp_all

lemma json_loads_fuel:
  assumes "length s < n"
  shows "json_loads s =
     (case scan_once n (skip_ws s) of
        None \<Rightarrow> None
      | Some (obj, r) \<Rightarrow> if skip_ws r = [] then Some obj else None)"
proof -
  have "scan_once (Suc (length s)) (skip_ws s) = scan_once n (skip_ws s)"
    using assms skip_ws_length[of s] by (intro decoder_fuel(1)) simp_all
  then show ?thesis by (simp add: json_loads_def)
qed

section \<open>The classifier adapter\<close>

lemma fallback_on_exception:
  "analyze_body api user_message = Inl x \<Longrightarrow> analyze_issue api user_message = fallback_response"
  by (simp add: analyze_issue_def)


lemma fallback_on_timeout:
  "api user_message = TimedOut \<Longrightarrow> analyze_issue api user_message = fallback_response"
  by (simp add: analyze_issue_def analyze_body_def)

lemma fallback_on_client_error:
  "api user_message = Failed \<Longrightarrow> analyze_issue api user_message = fallback_response"
  by (simp add: analyze_issue_def analyze_body_def)

lemma fallback_on_status:
  "api user_message = Response status body \<Longrightarrow> status \<noteq> 200 \<Longrightarrow>
   analyze_issue api user_message = fallback_response"
  by (simp add: analyze_issue_def analyze_body_def)

lemma fallback_on_undecodable_body:
  "api user_message = Response 200 None \<Longrightarrow> analyze_issue api user_message = fallback_response"
  by (simp add: analyze_issue_def analyze_body_def)

lemma fallback_on_no_text:
  "api user_message = Response 200 (Some result) \<Longrightarrow> has_generated_text result \<noteq> Inr True \<Longrightarrow>
   analyze_issue api user_message = fallback_response"
  by (cases "has_generated_text result") (auto simp add: analyze_issue_def analyze_body_def and_then_def)

lemma fallback_on_unparsed:
  "api user_message = Response 200 (Some result) \<Longrightarrow>
   and_then (generated_text result) parse_generated = Inl x \<Longrightarrow>
   analyze_issue api user_message = fallback_response"
  by (cases "has_generated_text result") (auto simp add: analyze_issue_def analyze_body_def and_then_def)

lemma parse_generated_unparseable:
  assumes "json_loads t = None"
    and "re_search_braces t = None \<or> (\<exists>span. re_search_braces t = Some span \<and> json_loads span = None)"
  shows "parse_generated (JStr t) = Inr fallback_response \<or> parse_generated (JStr t) = Inl JSONDecodeError"
  using assms by (auto simp: parse_generated_def)

lemma fallback_on_unparseable:
  assumes "api user_message = Response 200 (Some result)"
    and "generated_text result = Inr (JStr t)"
    and "json_loads t = None"
    and "re_search_braces t = None \<or> (\<exists>span. re_search_braces t = Some span \<and> json_loads span = None)"
  shows "analyze_issue api user_message = fallback_response"
proof (cases "has_generated_text result = Inr True")
  case False
  with assms(1) show ?thesis by (rule fallback_on_no_text)
next
  case True
  from parse_generated_unparseable[OF assms(3,4)] show ?thesis
  proof
    assume "parse_generated (JStr t) = Inr fallback_response"
    with True assms(1,2) show ?thesis
      by (simp add: analyze_issue_def analyze_body_def and_then_def)
  next
    assume "parse_generated (JStr t) = Inl JSONDecodeError"
    with assms(2) have "and_then (generated_text result) parse_generated = Inl JSONDecodeError"
      by (simp add: and_then_def)
    with assms(1) show ?thesis by (rule fallback_on_unparsed)
  qed
qed

lemma gemini_reply_text:
  "has_generated_text (JObj
     [(''candidates'', JArr [JObj [(''content'', JObj [(''parts'', JArr
        [JObj [(''text'', JStr text)]])])]])]) = Inr True"
  "generated_text (JObj
     [(''candidates'', JArr [JObj [(''content'', JObj [(''parts'', JArr
        [JObj [(''text'', JStr text)]])])]])]) = Inr (JStr text)"
  by (simp_all add: has_generated_text_def generated_text_def and_then_def candidate0_def
      content0_def parts0_def)

text \<open>
  Claim C2. \<open>analyze_issue\<close> gives a result for every message and every behaviour of the
  service, and no exception leaves it: whatever is raised inside (first line below) ends
  in the fallback. In particular the result is the fallback when the request fails, when
  the status is not 200, when the request times out, when the body does not decode, when
  the reply has no generated text, and when neither the text nor its span of braces is
  JSON. The fallback is the fixed result with \<open>create_ticket\<close>, \<open>medium\<close>, \<open>other\<close>,
  \<open>normal\<close> and the apology.
\<close>

theorem analyze_issue_fallback_on_failure:
  "(\<forall>x. analyze_body api user_message = Inl x \<longrightarrow> analyze_issue api user_message = fallback_response) \<and>
   (api user_message = Failed \<longrightarrow> analyze_issue api user_message = fallback_response) \<and>
   (\<forall>status body. api user_message = Response status body \<and> status \<noteq> 200 \<longrightarrow>
      analyze_issue api user_message = fallback_response) \<and>
   (api user_message = TimedOut \<longrightarrow> analyze_issue api user_message = fallback_response) \<and>
   (api user_message = Response 200 None \<longrightarrow> analyze_issue api user_message = fallback_response) \<and>
   (\<forall>result. api user_message = Response 200 (Some result) \<and> has_generated_text result \<noteq> Inr True \<longrightarrow>
      analyze_issue api user_message = fallback_response) \<and>
   (\<forall>result t. api user_message = Response 200 (Some result) \<and>
      generated_text result = Inr (JStr t) \<and> json_loads t = None \<and>
      (re_search_braces t = None \<or> (\<exists>span. re_search_braces t = Some span \<and> json_loads span = None)) \<longrightarrow>
      analyze_issue api user_message = fallback_response) \<and>
   fallback_response = JObj
     [(''action'', JStr ''create_ticket''),
      (''response'', JStr (''I'' @ [CHR 0x27] @ ''m having trouble analyzing your issue right now. '' @
          ''Let me create a support ticket so our team can help you directly.'')),
      (''severity'', JStr ''medium''),
      (''category'', JStr ''other''),
      (''urgency'', JStr ''normal'')]"
proof (intro conjI allI impI)
  fix x assume "analyze_body api user_message = Inl x"
  then show "analyze_issue api user_message = fallback_response" by (rule fallback_on_exception)
next
  assume "api user_message = Failed"
  then show "analyze_issue api user_message = fallback_response" by (rule fallback_on_client_error)
next
  fix status body assume "api user_message = Response status body \<and> status \<noteq> 200"
  then show "analyze_issue api user_message = fallback_response" by (auto intro: fallback_on_status)
next
  assume "api user_message = TimedOut"
  then show "analyze_issue api user_message = fallback_response" by (rule fallback_on_timeout)
next
  assume "api user_message = Response 200 None"
  then show "analyze_issue api user_message = fallback_response" by (rule fallback_on_undecodable_body)
next
  fix result assume "api user_message = Response 200 (Some result) \<and> has_generated_text result \<noteq> Inr True"
  then show "analyze_issue api user_message = fallback_response" by (auto intro: fallback_on_no_text)
next
  fix result t
  assume "api user_message = Response 200 (Some result) \<and>
      generated_text result = Inr (JStr t) \<and> json_loads t = None \<and>
      (re_search_braces t = None \<or> (\<exists>span. re_search_braces t = Some span \<and> json_loads span = None))"
  then show "analyze_issue api user_message = fallback_response"
    using fallback_on_unparseable[of api user_message result t] by blast
next
  show "fallback_response = JObj
     [(''action'', JStr ''create_ticket''),
      (''response'', JStr (''I'' @ [CHR 0x27] @ ''m having trouble analyzing your issue right now. '' @
          ''Let me create a support ticket so our team can help you directly.'')),
      (''severity'', JStr ''medium''),
      (''category'', JStr ''other''),
      (''urgency'', JStr ''normal'')]"
    by (simp add: fallback_response_def)
qed

theorem analyze_issue_fallback_on_failure_witness:
  "analyze_issue (\<lambda>m. Failed) ''it leaks'' = fallback_response \<and>
   analyze_issue (\<lambda>m. Response 503 None) ''it leaks'' = fallback_response \<and>
   analyze_issue (\<lambda>m. TimedOut) ''it leaks'' = fallback_response \<and>
   analyze_issue (\<lambda>m. Response 200 None) ''it leaks'' = fallback_response \<and>
   analyze_issue (\<lambda>m. Response 200 (Some (JObj [(''candidates'', JArr [])]))) ''it leaks'' = fallback_response \<and>
   analyze_issue (\<lambda>m. gemini_reply ''call a plumber'') ''it leaks'' = fallback_response"
proof -
  have none: "json_loads ''call a plumber'' = None" by code_simp
  have nospan: "re_search_braces ''call a plumber'' = None" by (simp add: re_search_braces_def)
  have nocand: "has_generated_text (JObj [(''candidates'', JArr [])]) \<noteq> Inr True"
    by (simp add: has_generated_text_def and_then_def)
  show ?thesis
    using analyze_issue_fallback_on_failure [of "\<lambda>m. Failed" "''it leaks''"]
      analyze_issue_fallback_on_failure [of "\<lambda>m. Response 503 None" "''it leaks''"]
      analyze_issue_fallback_on_failure [of "\<lambda>m. TimedOut" "''it leaks''"]
      analyze_issue_fallback_on_failure [of "\<lambda>m. Response 200 None" "''it leaks''"]
      analyze_issue_fallback_on_failure [of "\<lambda>m. Response 200 (Some (JObj [(''candidates'', JArr [])]))" "''it leaks''"]
      analyze_issue_fallback_on_failure [of "\<lambda>m. gemini_reply ''call a plumber''" "''it leaks''"]
      none nospan nocand gemini_reply_text[of "''call a plumber''"]
    by (simp add: gemini_reply_def)
qed






lemma re_search_braces_iff:
  "re_search_braces str = Some span \<longleftrightarrow>
     (\<exists>pre inner post. str = pre @ span @ post \<and> span = CHR ''{'' # inner @ [CHR ''}''] \<and>
        CHR ''{'' \<notin> set pre \<and> CHR ''}'' \<notin> set post)"
proof
  assume m: "re_search_braces str = Some span"
  define pre where "pre = takeWhile (\<lambda>c. c \<noteq> CHR ''{'') str"
  obtain b rest where br: "dropWhile (\<lambda>c. c \<noteq> CHR ''{'') str = b # rest"
    using m by (auto simp: re_search_braces_def split: list.splits)
  have "dropWhile (\<lambda>c. c \<noteq> CHR ''{'') str \<noteq> [] \<Longrightarrow>
      \<not> hd (dropWhile (\<lambda>c. c \<noteq> CHR ''{'') str) \<noteq> CHR ''{''"
    by (rule hd_dropWhile)
  with br have b: "b = CHR ''{''" by auto
  have "takeWhile (\<lambda>c. c \<noteq> CHR ''{'') str @ dropWhile (\<lambda>c. c \<noteq> CHR ''{'') str = str"
    by (rule takeWhile_dropWhile_id)
  with br have str: "str = pre @ b # rest" by (simp add: pre_def)
  from m br have close: "CHR ''}'' \<in> set rest"
    and span: "span = b # rev (dropWhile (\<lambda>c. c \<noteq> CHR ''}'') (rev rest))"
    by (auto simp: re_search_braces_def split: if_splits)
  define post where "post = rev (takeWhile (\<lambda>c. c \<noteq> CHR ''}'') (rev rest))"
  have "takeWhile (\<lambda>c. c \<noteq> CHR ''}'') (rev rest) @ dropWhile (\<lambda>c. c \<noteq> CHR ''}'') (rev rest)
      = rev rest"
    by (rule takeWhile_dropWhile_id)
  then have rest: "rest = rev (dropWhile (\<lambda>c. c \<noteq> CHR ''}'') (rev rest)) @ post"
    by (metis post_def rev_append rev_rev_ident)
  from close have "dropWhile (\<lambda>c. c \<noteq> CHR ''}'') (rev rest) \<noteq> []" by auto
  moreover have "dropWhile (\<lambda>c. c \<noteq> CHR ''}'') (rev rest) \<noteq> [] \<Longrightarrow>
      \<not> hd (dropWhile (\<lambda>c. c \<noteq> CHR ''}'') (rev rest)) \<noteq> CHR ''}''"
    by (rule hd_dropWhile)
  ultimately obtain ys where ys: "dropWhile (\<lambda>c. c \<noteq> CHR ''}'') (rev rest) = CHR ''}'' # ys"
    by (cases "dropWhile (\<lambda>c. c \<noteq> CHR ''}'') (rev rest)") auto
  have "CHR ''{'' \<notin> set pre" unfolding pre_def by (auto dest: set_takeWhileD)
  moreover have "CHR ''}'' \<notin> set post" unfolding post_def by (auto dest: set_takeWhileD)
  moreover have "span = CHR ''{'' # rev ys @ [CHR ''}'']" using span ys b by simp
  moreover have "str = pre @ span @ post" using str rest span by simp
  ultimately show "\<exists>pre inner post. str = pre @ span @ post \<and> span = CHR ''{'' # inner @ [CHR ''}''] \<and>
        CHR ''{'' \<notin> set pre \<and> CHR ''}'' \<notin> set post" by blast
next
  assume "\<exists>pre inner post. str = pre @ span @ post \<and> span = CHR ''{'' # inner @ [CHR ''}''] \<and>
        CHR ''{'' \<notin> set pre \<and> CHR ''}'' \<notin> set post"
  then obtain pre inner post where str: "str = pre @ span @ post"
    and span: "span = CHR ''{'' # inner @ [CHR ''}'']"
    and pre: "CHR ''{'' \<notin> set pre" and post: "CHR ''}'' \<notin> set post" by blast
  have d: "dropWhile (\<lambda>c. c \<noteq> CHR ''{'') str = CHR ''{'' # inner @ [CHR ''}''] @ post"
    using pre unfolding str span by (subst dropWhile_append2) auto
  have r: "dropWhile (\<lambda>c. c \<noteq> CHR ''}'') (rev (inner @ [CHR ''}''] @ post)) = CHR ''}'' # rev inner"
  proof -
    have "dropWhile (\<lambda>c. c \<noteq> CHR ''}'') (rev post @ CHR ''}'' # rev inner) =
        dropWhile (\<lambda>c. c \<noteq> CHR ''}'') (CHR ''}'' # rev inner)"
      using post by (intro dropWhile_append2) auto
    then show ?thesis by simp
  qed
  show "re_search_braces str = Some span"
    unfolding re_search_braces_def d using r span by simp
qed

text \<open>
  Claim C6, as the code has it. For a reply that carries a generated text, the result is
  the decoded text when the whole text is JSON; otherwise the decoded span from the first
  opening brace of the text to its last closing brace, when there is such a span and it is
  JSON; otherwise the fallback. The second line says what the span is.
\<close>

theorem two_tier_parse:
  assumes "api user_message = Response 200 (Some result)"
    and "has_generated_text result = Inr True"
    and "generated_text result = Inr (JStr t)"
  shows "analyze_issue api user_message =
      (case json_loads t of
         Some v \<Rightarrow> v
       | None \<Rightarrow>
           (case re_search_braces t of
              None \<Rightarrow> fallback_response
            | Some span \<Rightarrow>
                (case json_loads span of Some v \<Rightarrow> v | None \<Rightarrow> fallback_response))) \<and>
    (\<forall>span. re_search_braces t = Some span \<longleftrightarrow>
       (\<exists>pre inner post. t = pre @ span @ post \<and> span = CHR ''{'' # inner @ [CHR ''}''] \<and>
          CHR ''{'' \<notin> set pre \<and> CHR ''}'' \<notin> set post))"
proof
  show "analyze_issue api user_message =
      (case json_loads t of
         Some v \<Rightarrow> v
       | None \<Rightarrow>
           (case re_search_braces t of
              None \<Rightarrow> fallback_response
            | Some span \<Rightarrow>
                (case json_loads span of Some v \<Rightarrow> v | None \<Rightarrow> fallback_response)))"
    using assms
    by (simp add: analyze_issue_def analyze_body_def and_then_def parse_generated_def
        split: option.splits)
next
  show "\<forall>span. re_search_braces t = Some span \<longleftrightarrow>
       (\<exists>pre inner post. t = pre @ span @ post \<and> span = CHR ''{'' # inner @ [CHR ''}''] \<and>
          CHR ''{'' \<notin> set pre \<and> CHR ''}'' \<notin> set post)"
    using re_search_braces_iff by blast
qed

theorem two_tier_parse_witness:
  \<open>analyze_issue (\<lambda>m. gemini_reply ''Sure: {"action": "create_ticket"} done'') ''it leaks'' =
     JObj [(''action'', JStr ''create_ticket'')] \<and>
   re_search_braces ''Sure: {"action": "create_ticket"} done'' = Some ''{"action": "create_ticket"}''\<close>
proof -
  have whole: \<open>json_loads ''Sure: {"action": "create_ticket"} done'' = None\<close> by code_simp
  have span: \<open>re_search_braces ''Sure: {"action": "create_ticket"} done'' =
      Some ''{"action": "create_ticket"}''\<close>
    by (simp add: re_search_braces_def)
  have inner: \<open>json_loads ''{"action": "create_ticket"}'' = Some (JObj [(''action'', JStr ''create_ticket'')])\<close>
    by code_simp
  show ?thesis
    using two_tier_parse [OF _ gemini_reply_text,
        of \<open>\<lambda>m. gemini_reply ''Sure: {"action": "create_ticket"} done''\<close> \<open>''it leaks''\<close>
           \<open>''Sure: {"action": "create_ticket"} done''\<close>] whole span inner
    by (simp add: gemini_reply_def)
qed

text \<open>
  Claim C6 as stated fails: the span the code parses is not the first balanced one. In a
  text with two objects the first balanced span is the first object, which is JSON, but
  the code takes everything from the first opening brace to the last closing brace, which
  is not, and returns the fallback.
\<close>

theorem first_balanced_span_counterexample:
  \<open>spec_first_balanced_span ''see {"action": "provide_solution"} or {"action": "create_ticket"}'' =
     Some ''{"action": "provide_solution"}'' \<and>
   spec_parse ''see {"action": "provide_solution"} or {"action": "create_ticket"}'' =
     JObj [(''action'', JStr ''provide_solution'')] \<and>
   re_search_braces ''see {"action": "provide_solution"} or {"action": "create_ticket"}'' =
     Some ''{"action": "provide_solution"} or {"action": "create_ticket"}'' \<and>
   analyze_issue
     (\<lambda>m. gemini_reply ''see {"action": "provide_solution"} or {"action": "create_ticket"}'')
     ''it leaks'' = fallback_response \<and>
   analyze_issue
     (\<lambda>m. gemini_reply ''see {"action": "provide_solution"} or {"action": "create_ticket"}'')
     ''it leaks'' \<noteq>
   spec_parse ''see {"action": "provide_solution"} or {"action": "create_ticket"}''\<close>
  by code_simp

section \<open>Creating a ticket\<close>

text \<open>
  What \<open>create_support_ticket\<close> can come to: an argument of the call raised and nothing was
  called; the ticket store raised; or it returned, and the second part of the function ran.
  In the last two cases the log starts with the call, whose fields are known.
\<close>

lemma created_or_failed_none:
  "ticket_created_or_failed e s m d analysis severity category call None =
     (None, [call, Replied TicketFailedEmbed], s)"
  by (simp add: ticket_created_or_failed_def)

lemma created_or_failed_pending:
  "ticket_created_or_failed e s m d analysis severity category call tid = (raised, log, s') \<Longrightarrow>
   pending_tickets s' = pending_tickets s"
  by (auto simp: ticket_created_or_failed_def Let_def split: option.splits if_splits sum.splits)

lemma created_or_failed_log:
  "ticket_created_or_failed e s m d analysis severity category (TicketCall c) tid = (raised, log, s') \<Longrightarrow>
   ticket_calls log = [c] \<and> length (replies_of log) = (if raised = None then 1 else 0)"
  by (auto simp: ticket_created_or_failed_def Let_def split: option.splits if_splits sum.splits)

lemma created_or_failed_created:
  assumes "tid \<noteq> []"
  shows "ticket_created_or_failed e s m d (JObj kvs) (JStr sev) (JStr cat) call (Some tid) =
     (None,
      [call, Replied (TicketCreatedEmbed tid (str_title sev)
         (case map_of kvs ''response'' of
            None \<Rightarrow> JStr ''Our support team will review your issue and get back to you soon.''
          | Some v \<Rightarrow> v))],
      s\<lparr>database := (database s)(tid \<mapsto>
           \<lparr>row_user_id = digits_of (msg_author_id m),
            row_username = msg_author_display_name m,
            row_issue_description = d,
            row_status = ''Open'',
            row_severity = JStr sev,
            row_category = JStr cat,
            row_created_at = now e,
            row_updated_at = now e\<rparr>),
         user_tickets := (user_tickets s)(msg_author_id m \<mapsto> tid)\<rparr>)"
  using assms
  by (simp add: ticket_created_or_failed_def save_ticket_def and_then_def Let_def)

lemma create_support_ticket_cases:
  assumes "create_support_ticket cfg e s m d analysis = (raised, log, s')"
  obtains (early) x where "raised = Some x" "log = []" "s' = s"
      "\<nexists>cat. dict_get analysis ''category'' (JStr ''general'') = Inr (JStr cat)"
  | (call_raised) c x cat where "raised = Some x" "log = [TicketCall c]" "s' = s"
      "tc_returned c = Inl x"
      "dict_get analysis ''category'' (JStr ''general'') = Inr (JStr cat)"
      "dict_get analysis ''severity'' (JStr ''medium'') = Inr (tc_severity c)"
      "tc_title c = ''Washing Machine Issue - '' @ str_title cat"
      "tc_pending c = pending_tickets s"
      "tc_returned c = create_ticket (render e) (mantis_cfg cfg) (mantis e) (tc_title c)
         (tc_description c) (tc_severity c) (JStr cat) (Some (digits_of (msg_author_id m)))"
  | (returned) c ticket_id cat where "tc_returned c = Inr ticket_id"
      "dict_get analysis ''category'' (JStr ''general'') = Inr (JStr cat)"
      "dict_get analysis ''severity'' (JStr ''medium'') = Inr (tc_severity c)"
      "tc_title c = ''Washing Machine Issue - '' @ str_title cat"
      "tc_pending c = pending_tickets s"
      "ticket_created_or_failed e s m d analysis (tc_severity c) (JStr cat) (TicketCall c) ticket_id
         = (raised, log, s')"
      "tc_returned c = create_ticket (render e) (mantis_cfg cfg) (mantis e) (tc_title c)
         (tc_description c) (tc_severity c) (JStr cat) (Some (digits_of (msg_author_id m)))"
proof (cases "dict_get analysis ''category'' (JStr ''general'')")
  case (Inl x)
  then show ?thesis using assms early
    by (auto simp: create_support_ticket_def)
next
  case (Inr category)
  then obtain kvs where kvs: "analysis = JObj kvs" by (cases analysis) auto
  show ?thesis
  proof (cases "py_title category")
    case (Inl x)
    then have "\<nexists>cat. category = JStr cat" by (cases category) auto
    then show ?thesis using assms Inr Inl early
      by (auto simp: create_support_ticket_def)
  next
    case title: (Inr category_title)
    then obtain cat where cat: "category = JStr cat" "category_title = str_title cat"
      by (cases category) auto
    obtain desc where desc: "ticket_description e m d analysis cat = Inr desc"
      using kvs by (simp add: ticket_description_def and_then_def)
    obtain sev where sev: "dict_get analysis ''severity'' (JStr ''medium'') = Inr sev"
      using kvs by simp
    define title where "title = ''Washing Machine Issue - '' @ str_title cat"
    define ret where "ret = create_ticket (render e) (mantis_cfg cfg) (mantis e)
                       title desc sev (JStr cat) (Some (digits_of (msg_author_id m)))"
    define c where "c = \<lparr>tc_title = title, tc_description = desc, tc_severity = sev,
             tc_category = JStr cat, tc_user_id = digits_of (msg_author_id m),
             tc_pending = pending_tickets s, tc_returned = ret\<rparr>"
    have unfolded: "create_support_ticket cfg e s m d analysis =
        (case ret of Inl x \<Rightarrow> (Some x, [TicketCall c], s)
         | Inr ticket_id \<Rightarrow> ticket_created_or_failed e s m d analysis sev (JStr cat) (TicketCall c) ticket_id)"
      unfolding c_def ret_def title_def create_support_ticket_def
      using Inr cat desc sev by (simp add: Let_def cong: sum.case_cong)
    have c_fields: "tc_returned c = ret" "tc_severity c = sev" "tc_title c = title"
        "tc_pending c = pending_tickets s"
      by (simp_all add: c_def)
    have c_ret: "tc_returned c = create_ticket (render e) (mantis_cfg cfg) (mantis e) (tc_title c)
         (tc_description c) (tc_severity c) (JStr cat) (Some (digits_of (msg_author_id m)))"
      by (simp add: c_def ret_def)
    have cat': "dict_get analysis ''category'' (JStr ''general'') = Inr (JStr cat)"
      using Inr cat by simp
    show ?thesis
    proof (cases ret)
      case (Inl x)
      with assms unfolded have "raised = Some x" "log = [TicketCall c]" "s' = s"
        by simp_all
      then show ?thesis
        using call_raised[of x c cat] c_fields cat' sev Inl title_def c_ret by metis
    next
      case ret: (Inr ticket_id)
      with assms unfolded have
        "ticket_created_or_failed e s m d analysis sev (JStr cat) (TicketCall c) ticket_id
           = (raised, log, s')"
        by simp
      then show ?thesis
        using returned[of c ticket_id cat] c_fields cat' sev ret title_def c_ret by metis
    qed
  qed
qed

lemma ticket_calls_append: "ticket_calls (xs @ ys) = ticket_calls xs @ ticket_calls ys"
  by (induction xs rule: ticket_calls.induct) auto

lemma replies_of_append: "replies_of (xs @ ys) = replies_of xs @ replies_of ys"
  by (induction xs rule: replies_of.induct) auto

lemma create_support_ticket_null:
  assumes "create_support_ticket cfg e s m d analysis = (raised, log, s')"
    and "c \<in> set (ticket_calls log)" and "tc_returned c = Inr None"
  shows "raised = None \<and> log = [TicketCall c, Replied TicketFailedEmbed] \<and> s' = s"
  using assms(1)
proof (cases rule: create_support_ticket_cases)
  case (early x)
  with assms(2) show ?thesis by simp
next
  case (call_raised c' x cat)
  with assms(2,3) show ?thesis by simp
next
  case (returned c' ticket_id cat)
  from created_or_failed_log[OF returned(6)] assms(2) have "c' = c" by simp
  with returned assms(3) show ?thesis by (simp add: created_or_failed_none)
qed

lemma create_support_ticket_title:
  assumes "create_support_ticket cfg e s m d analysis = (raised, log, s')"
    and "c \<in> set (ticket_calls log)"
  shows "\<exists>cat. dict_get analysis ''category'' (JStr ''general'') = Inr (JStr cat) \<and>
           tc_title c = ''Washing Machine Issue - '' @ str_title cat"
  using assms(1)
proof (cases rule: create_support_ticket_cases)
  case (early x)
  with assms(2) show ?thesis by simp
next
  case (call_raised c' x cat)
  with assms(2) show ?thesis by simp
next
  case (returned c' ticket_id cat)
  from created_or_failed_log[OF returned(6)] assms(2) have "c' = c" by simp
  with returned show ?thesis by simp
qed

lemma create_support_ticket_replies:
  assumes "create_support_ticket cfg e s m d analysis = (raised, log, s')"
  shows "length (replies_of log) = (if raised = None then 1 else 0)"
  using assms
proof (cases rule: create_support_ticket_cases)
  case (returned c ticket_id cat)
  from created_or_failed_log[OF returned(6)] show ?thesis by simp
qed simp_all

lemma create_support_ticket_created:
  assumes cst: "create_support_ticket cfg e s m d analysis = (raised, log, s')"
    and c: "c \<in> set (ticket_calls log)"
    and ret: "tc_returned c = Inr (Some ticket_id)" and ne: "ticket_id \<noteq> []"
    and sev: "tc_severity c = JStr sev"
  shows "\<exists>cat next_steps. raised = None \<and>
     dict_get analysis ''category'' (JStr ''general'') = Inr (JStr cat) \<and>
     dict_get analysis ''severity'' (JStr ''medium'') = Inr (JStr sev) \<and>
     log = [TicketCall c, Replied (TicketCreatedEmbed ticket_id (str_title sev) next_steps)] \<and>
     s' = s\<lparr>database := (database s)(ticket_id \<mapsto>
           \<lparr>row_user_id = digits_of (msg_author_id m),
            row_username = msg_author_display_name m,
            row_issue_description = d,
            row_status = ''Open'',
            row_severity = JStr sev,
            row_category = JStr cat,
            row_created_at = now e,
            row_updated_at = now e\<rparr>),
         user_tickets := (user_tickets s)(msg_author_id m \<mapsto> ticket_id)\<rparr>"
  using cst
proof (cases rule: create_support_ticket_cases)
  case (early x)
  with c show ?thesis by simp
next
  case (call_raised c' x cat)
  with c ret show ?thesis by simp
next
  case (returned c' tid cat)
  from created_or_failed_log[OF returned(6)] c have cc: "c' = c" by simp
  with returned ret have tid: "tid = Some ticket_id" by simp
  from returned(2) obtain kvs where kvs: "analysis = JObj kvs" by (cases analysis) auto
  from returned(6) show ?thesis
    unfolding cc tid sev kvs created_or_failed_created[OF ne]
    using returned(2,3) cc sev kvs by auto
qed

text \<open>
  Claim C7, as the code has it. Whenever \<open>create_support_ticket\<close> calls the ticket store,
  for a request and for a reaction alike, the title it passes is
  \<open>Washing Machine Issue - \<close> followed by the category in title case, where the category
  is the one of the analysis (\<open>general\<close> when the analysis has none) and is a text.
\<close>

theorem ticket_title_format:
  assumes "create_support_ticket cfg e s m d analysis = (raised, log, s')"
    and "c \<in> set (ticket_calls log)"
  shows "\<exists>cat. dict_get analysis ''category'' (JStr ''general'') = Inr (JStr cat) \<and>
           tc_title c = ''Washing Machine Issue - '' @ str_title cat"
  using assms by (rule create_support_ticket_title)

theorem ticket_title_format_witness:
  \<open>map tc_title (ticket_calls (fst (snd (create_support_ticket example_config
       (example_env Failed (mantis_created (JStr ''T-42''))) initial_state
       (example_message ''water leaking everywhere'') ''water leaking everywhere''
       (JObj [(''action'', JStr ''create_ticket''), (''severity'', JStr ''high''),
              (''category'', JStr ''mechanical'')]))))) =
     [''Washing Machine Issue - Mechanical'']\<close>
proof -
  let ?A = "JObj [(''action'', JStr ''create_ticket''), (''severity'', JStr ''high''),
              (''category'', JStr ''mechanical'')]"
  let ?X = "create_support_ticket example_config
       (example_env Failed (mantis_created (JStr ''T-42''))) initial_state
       (example_message ''water leaking everywhere'') ''water leaking everywhere'' ?A"
  have "length (ticket_calls (fst (snd ?X))) = 1" by code_simp
  then obtain c where calls: "ticket_calls (fst (snd ?X)) = [c]"
    by (cases "ticket_calls (fst (snd ?X))") auto
  have "?X = (fst ?X, fst (snd ?X), snd (snd ?X))" by simp
  from ticket_title_format [OF this, of c] calls
  have "tc_title c = ''Washing Machine Issue - '' @ str_title ''mechanical''" by simp
  moreover have "str_title ''mechanical'' = ''Mechanical''" by code_simp
  ultimately show ?thesis using calls by simp
qed

text \<open>
  Claim C7 as stated fails: for the category \<open>mechanical\<close> the title passed to the ticket
  store is \<open>Washing Machine Issue - Mechanical\<close>, not \<open>Mechanical issue\<close>.
\<close>

theorem ticket_title_counterexample:
  \<open>map tc_title (ticket_calls (fst (snd (handle_support_request example_config
       (example_env
          (gemini_reply ''{"action": "create_ticket", "response": "call us", "severity": "high", "category": "mechanical", "urgency": "high"}'')
          (mantis_created (JStr ''T-42'')))
       initial_state (example_message ''water leaking everywhere''))))) =
     [''Washing Machine Issue - Mechanical''] \<and>
   ''Washing Machine Issue - Mechanical'' \<noteq> ''Mechanical issue''\<close>
  by code_simp

section \<open>Support requests\<close>

text \<open>
  How \<open>handle_support_request\<close> goes: the help for a greeting; the error text when the
  analysis has no \<open>action\<close>; otherwise one of the two paths, followed by the error text
  when the path raised. A call to the ticket store in the log comes from the second path.
\<close>

lemma send_solution_response_replies:
  "send_solution_response e s m analysis = (raised, log, s') \<Longrightarrow>
   length (replies_of log) = (if raised = None then 1 else 0)"
  by (auto simp: send_solution_response_def split: sum.splits)

lemma send_solution_response_no_call:
  "send_solution_response e s m analysis = (raised, log, s') \<Longrightarrow> ticket_calls log = []"
  by (auto simp: send_solution_response_def split: sum.splits)

lemma handle_greeting:
  "greeting (clean_content cfg m) \<Longrightarrow> handle_support_request cfg e s m = (None, [Replied HelpEmbed], s)"
  by (simp add: handle_support_request_def greeting_def Let_def)

lemma handle_escalation:
  assumes "\<not> greeting (clean_content cfg m)"
    and "subscript_key (analyze_issue (gemini e) (clean_content cfg m)) ''action'' = Inr action"
    and "action \<noteq> JStr ''provide_solution''"
    and "create_support_ticket cfg e s m (clean_content cfg m)
           (analyze_issue (gemini e) (clean_content cfg m)) = (raised, log, s')"
  shows "handle_support_request cfg e s m =
     (None, log @ (case raised of None \<Rightarrow> [] | Some x \<Rightarrow> [Replied ErrorText]), s')"
  using assms
  by (simp add: handle_support_request_def greeting_def Let_def split: option.splits)

lemma handle_solution:
  assumes "\<not> greeting (clean_content cfg m)"
    and "subscript_key (analyze_issue (gemini e) (clean_content cfg m)) ''action'' =
           Inr (JStr ''provide_solution'')"
    and "send_solution_response e s m (analyze_issue (gemini e) (clean_content cfg m)) = (raised, log, s')"
  shows "handle_support_request cfg e s m =
     (None, log @ (case raised of None \<Rightarrow> [] | Some x \<Rightarrow> [Replied ErrorText]), s')"
  using assms
  by (simp add: handle_support_request_def greeting_def Let_def split: option.splits)

lemma handle_no_action:
  assumes "\<not> greeting (clean_content cfg m)"
    and "subscript_key (analyze_issue (gemini e) (clean_content cfg m)) ''action'' = Inl x"
  shows "handle_support_request cfg e s m = (None, [Replied ErrorText], s)"
  using assms
  by (simp add: handle_support_request_def greeting_def Let_def split: option.splits)

lemma handle_call_origin:
  assumes h: "handle_support_request cfg e s m = (raised, log, s')"
    and c: "c \<in> set (ticket_calls log)"
  shows "\<exists>r l action. create_support_ticket cfg e s m (clean_content cfg m)
              (analyze_issue (gemini e) (clean_content cfg m)) = (r, l, s') \<and>
           log = l @ (case r of None \<Rightarrow> [] | Some x \<Rightarrow> [Replied ErrorText]) \<and>
           c \<in> set (ticket_calls l) \<and> raised = None \<and>
           subscript_key (analyze_issue (gemini e) (clean_content cfg m)) ''action'' = Inr action \<and>
           action \<noteq> JStr ''provide_solution''"
proof (cases "greeting (clean_content cfg m)")
  case True
  with h c show ?thesis by (auto simp: handle_greeting)
next
  case False
  define analysis where "analysis = analyze_issue (gemini e) (clean_content cfg m)"
  show ?thesis
  proof (cases "subscript_key analysis ''action''")
    case (Inl x)
    with h c False show ?thesis by (auto simp: handle_no_action analysis_def)
  next
    case (Inr action)
    show ?thesis
    proof (cases "action = JStr ''provide_solution''")
      case True
      obtain r l s1 where ssr: "send_solution_response e s m analysis = (r, l, s1)"
        by (cases "send_solution_response e s m analysis") auto
      from handle_solution[OF False Inr[unfolded analysis_def True] ssr[unfolded analysis_def]] h
      have "log = l @ (case r of None \<Rightarrow> [] | Some x \<Rightarrow> [Replied ErrorText])" by simp
      with c send_solution_response_no_call[OF ssr] have False
        by (auto simp: ticket_calls_append split: option.splits)
      then show ?thesis ..
    next
      case neq: False
      obtain r l s1 where cst: "create_support_ticket cfg e s m (clean_content cfg m) analysis = (r, l, s1)"
        by (cases "create_support_ticket cfg e s m (clean_content cfg m) analysis") auto
      from handle_escalation[OF False Inr[unfolded analysis_def] neq cst[unfolded analysis_def]] h
      have eq: "log = l @ (case r of None \<Rightarrow> [] | Some x \<Rightarrow> [Replied ErrorText])"
        "raised = None" "s' = s1" by simp_all
      with c have "c \<in> set (ticket_calls l)"
        by (auto simp: ticket_calls_append split: option.splits)
      with eq cst Inr neq show ?thesis unfolding analysis_def by blast
    qed
  qed
qed

text \<open>
  Claim C9. Whenever handling a support request calls the ticket store (which happens
  only when the classification has an action other than \<open>provide_solution\<close>, last line) and
  the call returns \<open>None\<close>, the handler does not raise, the log is that call followed by
  the reply ``Ticket Creation Failed'', and the state is the one before: no row is
  written to the database and no latest ticket is set.
\<close>

theorem ticket_creation_failed:
  assumes "handle_support_request cfg e s m = (raised, log, s')"
    and "c \<in> set (ticket_calls log)"
    and "tc_returned c = Inr None"
  shows "raised = None \<and> log = [TicketCall c, Replied TicketFailedEmbed] \<and> s' = s \<and>
    (\<exists>action. subscript_key (analyze_issue (gemini e) (clean_content cfg m)) ''action'' = Inr action \<and>
       action \<noteq> JStr ''provide_solution'')"
proof -
  from handle_call_origin[OF assms(1,2)] obtain r l action where
    cst: "create_support_ticket cfg e s m (clean_content cfg m)
              (analyze_issue (gemini e) (clean_content cfg m)) = (r, l, s')"
    and log: "log = l @ (case r of None \<Rightarrow> [] | Some x \<Rightarrow> [Replied ErrorText])"
    and c: "c \<in> set (ticket_calls l)" and raised: "raised = None"
    and action: "subscript_key (analyze_issue (gemini e) (clean_content cfg m)) ''action'' = Inr action"
      "action \<noteq> JStr ''provide_solution''"
    by blast
  from create_support_ticket_null[OF cst c assms(3)] log raised action
  show ?thesis by auto
qed

theorem ticket_creation_failed_witness:
  \<open>replies_of (fst (snd (handle_support_request example_config
       (example_env
          (gemini_reply ''{"action": "create_ticket", "response": "call us", "severity": "high", "category": "mechanical", "urgency": "high"}'')
          Failed)
       initial_state (example_message ''water leaking everywhere'')))) = [TicketFailedEmbed] \<and>
   snd (snd (handle_support_request example_config
       (example_env
          (gemini_reply ''{"action": "create_ticket", "response": "call us", "severity": "high", "category": "mechanical", "urgency": "high"}'')
          Failed)
       initial_state (example_message ''water leaking everywhere''))) = initial_state\<close>
proof -
  let ?X = \<open>handle_support_request example_config
       (example_env
          (gemini_reply ''{"action": "create_ticket", "response": "call us", "severity": "high", "category": "mechanical", "urgency": "high"}'')
          Failed)
       initial_state (example_message ''water leaking everywhere'')\<close>
  have "map tc_returned (ticket_calls (fst (snd ?X))) = [Inr None]" by code_simp
  then obtain c where calls: "ticket_calls (fst (snd ?X)) = [c]" and ret: "tc_returned c = Inr None"
    by (cases "ticket_calls (fst (snd ?X))") auto
  have "?X = (fst ?X, fst (snd ?X), snd (snd ?X))" by simp
  from ticket_creation_failed [OF this _ ret] calls
  have "fst (snd ?X) = [TicketCall c, Replied TicketFailedEmbed]" "snd (snd ?X) = initial_state"
    by simp_all
  then show ?thesis by simp
qed

text \<open>
  Claim C8, as the code has it. Whenever handling a support request calls the ticket store
  (so the classification has an action other than \<open>provide_solution\<close>, last line), the call
  returns an identifier that is not empty, and the severity passed (the one of the
  classification, or \<open>medium\<close>) is a text, then the handler does not raise, it replies
  ``Support Ticket Created'' with that identifier, the database has a row under that
  identifier with the user, the issue, the severity and the category, and the latest
  ticket of the author is that identifier; nothing else of the state changes.
\<close>

theorem ticket_created:
  assumes "handle_support_request cfg e s m = (raised, log, s')"
    and "c \<in> set (ticket_calls log)"
    and "tc_returned c = Inr (Some ticket_id)" and "ticket_id \<noteq> []"
    and "tc_severity c = JStr sev"
  shows "raised = None \<and>
    (\<exists>next_steps. log = [TicketCall c, Replied (TicketCreatedEmbed ticket_id (str_title sev) next_steps)]) \<and>
    (\<exists>cat. s' = s\<lparr>database := (database s)(ticket_id \<mapsto>
           \<lparr>row_user_id = digits_of (msg_author_id m),
            row_username = msg_author_display_name m,
            row_issue_description = clean_content cfg m,
            row_status = ''Open'',
            row_severity = JStr sev,
            row_category = JStr cat,
            row_created_at = now e,
            row_updated_at = now e\<rparr>),
         user_tickets := (user_tickets s)(msg_author_id m \<mapsto> ticket_id)\<rparr>) \<and>
    database s' ticket_id \<noteq> None \<and>
    user_tickets s' (msg_author_id m) = Some ticket_id \<and>
    (\<exists>action. subscript_key (analyze_issue (gemini e) (clean_content cfg m)) ''action'' = Inr action \<and>
       action \<noteq> JStr ''provide_solution'')"
proof -
  from handle_call_origin[OF assms(1,2)] obtain r l action where
    cst: "create_support_ticket cfg e s m (clean_content cfg m)
              (analyze_issue (gemini e) (clean_content cfg m)) = (r, l, s')"
    and log: "log = l @ (case r of None \<Rightarrow> [] | Some x \<Rightarrow> [Replied ErrorText])"
    and c: "c \<in> set (ticket_calls l)" and raised: "raised = None"
    and action: "subscript_key (analyze_issue (gemini e) (clean_content cfg m)) ''action'' = Inr action"
      "action \<noteq> JStr ''provide_solution''"
    by blast
  from create_support_ticket_created[OF cst c assms(3,4,5)] obtain cat next_steps where
    r: "r = None"
    and l: "l = [TicketCall c, Replied (TicketCreatedEmbed ticket_id (str_title sev) next_steps)]"
    and s': "s' = s\<lparr>database := (database s)(ticket_id \<mapsto>
           \<lparr>row_user_id = digits_of (msg_author_id m),
            row_username = msg_author_display_name m,
            row_issue_description = clean_content cfg m,
            row_status = ''Open'',
            row_severity = JStr sev,
            row_category = JStr cat,
            row_created_at = now e,
            row_updated_at = now e\<rparr>),
         user_tickets := (user_tickets s)(msg_author_id m \<mapsto> ticket_id)\<rparr>"
    by blast
  have "database s' ticket_id \<noteq> None" "user_tickets s' (msg_author_id m) = Some ticket_id"
    unfolding s' by simp_all
  with raised log r l s' action show ?thesis by auto
qed

theorem ticket_created_witness:
  \<open>replies_of (fst (snd (handle_support_request example_config
       (example_env
          (gemini_reply ''{"action": "create_ticket", "response": "call us", "severity": "high", "category": "mechanical", "urgency": "high"}'')
          (mantis_created (JStr ''T-42'')))
       initial_state (example_message ''water leaking everywhere'')))) =
     [TicketCreatedEmbed ''T-42'' ''High'' (JStr ''call us'')] \<and>
   user_tickets (snd (snd (handle_support_request example_config
       (example_env
          (gemini_reply ''{"action": "create_ticket", "response": "call us", "severity": "high", "category": "mechanical", "urgency": "high"}'')
          (mantis_created (JStr ''T-42'')))
       initial_state (example_message ''water leaking everywhere'')))) 5 = Some ''T-42'' \<and>
   database (snd (snd (handle_support_request example_config
       (example_env
          (gemini_reply ''{"action": "create_ticket", "response": "call us", "severity": "high", "category": "mechanical", "urgency": "high"}'')
          (mantis_created (JStr ''T-42'')))
       initial_state (example_message ''water leaking everywhere'')))) ''T-42'' \<noteq> None\<close>
proof -
  let ?X = \<open>handle_support_request example_config
       (example_env
          (gemini_reply ''{"action": "create_ticket", "response": "call us", "severity": "high", "category": "mechanical", "urgency": "high"}'')
          (mantis_created (JStr ''T-42'')))
       initial_state (example_message ''water leaking everywhere'')\<close>
  have "map (\<lambda>c. (tc_returned c, tc_severity c)) (ticket_calls (fst (snd ?X))) =
      [(Inr (Some ''T-42''), JStr ''high'')]" by code_simp
  then obtain c where calls: "ticket_calls (fst (snd ?X)) = [c]"
    and ret: "tc_returned c = Inr (Some ''T-42'')" and sev: "tc_severity c = JStr ''high''"
    by (cases "ticket_calls (fst (snd ?X))") auto
  have next_steps: "map (\<lambda>r. case r of TicketCreatedEmbed _ _ n \<Rightarrow> Some n | _ \<Rightarrow> None)
      (replies_of (fst (snd ?X))) = [Some (JStr ''call us'')]" by code_simp
  have high: "str_title ''high'' = ''High''" by code_simp
  have author: "msg_author_id (example_message ''water leaking everywhere'') = 5"
    by (simp add: example_message_def)
  have "?X = (fst ?X, fst (snd ?X), snd (snd ?X))" by simp
  from ticket_created [OF this _ ret _ sev] calls next_steps high author
  show ?thesis by auto
qed

text \<open>
  Claim C8 as stated fails in two ways. With a severity that is not a text (here the
  number 3) the ticket store returns \<open>T-42\<close>, but \<open>title()\<close> on the severity raises
  while the reply is built, and the user gets the error text. And an identifier that is
  empty counts as none: the reply is ``Ticket Creation Failed'' and no latest ticket is set.
\<close>

theorem ticket_created_counterexample:
  \<open>map tc_returned (ticket_calls (fst (snd (handle_support_request example_config
       (example_env
          (gemini_reply ''{"action": "create_ticket", "response": "call us", "severity": 3, "category": "mechanical"}'')
          (mantis_created (JStr ''T-42'')))
       initial_state (example_message ''water leaking everywhere''))))) = [Inr (Some ''T-42'')] \<and>
   replies_of (fst (snd (handle_support_request example_config
       (example_env
          (gemini_reply ''{"action": "create_ticket", "response": "call us", "severity": 3, "category": "mechanical"}'')
          (mantis_created (JStr ''T-42'')))
       initial_state (example_message ''water leaking everywhere'')))) = [ErrorText] \<and>
   map tc_returned (ticket_calls (fst (snd (handle_support_request example_config
       (example_env
          (gemini_reply ''{"action": "create_ticket", "response": "call us", "severity": "high", "category": "mechanical", "urgency": "high"}'')
          (mantis_created (JStr [])))
       initial_state (example_message ''water leaking everywhere''))))) = [Inr (Some [])] \<and>
   replies_of (fst (snd (handle_support_request example_config
       (example_env
          (gemini_reply ''{"action": "create_ticket", "response": "call us", "severity": "high", "category": "mechanical", "urgency": "high"}'')
          (mantis_created (JStr [])))
       initial_state (example_message ''water leaking everywhere'')))) = [TicketFailedEmbed] \<and>
   user_tickets (snd (snd (handle_support_request example_config
       (example_env
          (gemini_reply ''{"action": "create_ticket", "response": "call us", "severity": "high", "category": "mechanical", "urgency": "high"}'')
          (mantis_created (JStr [])))
       initial_state (example_message ''water leaking everywhere'')))) 5 = None\<close>
  by code_simp

lemma create_ticket_text_severity:
  "create_ticket r cfg api title description (JStr sev) category user_id \<noteq> Inl x"
  by (simp add: create_ticket_def and_then_def)

lemma create_support_ticket_fallback:
  assumes "create_support_ticket cfg e s m d fallback_response = (raised, log, s')"
  shows "raised = None \<and>
    (\<exists>c. ticket_calls log = [c] \<and> tc_severity c = JStr ''medium'' \<and>
         tc_title c = ''Washing Machine Issue - Other'') \<and>
    (replies_of log = [TicketFailedEmbed] \<or>
     (\<exists>ticket_id next_steps. replies_of log = [TicketCreatedEmbed ticket_id ''Medium'' next_steps]))"
proof -
  have cat: "dict_get fallback_response ''category'' (JStr ''general'') = Inr (JStr ''other'')"
    and sev: "dict_get fallback_response ''severity'' (JStr ''medium'') = Inr (JStr ''medium'')"
    by (simp_all add: fallback_response_def)
  have other: "str_title ''other'' = ''Other''" and medium: "str_title ''medium'' = ''Medium''"
    by code_simp+
  obtain kvs where kvs: "fallback_response = JObj kvs" by (simp add: fallback_response_def)
  from assms show ?thesis
  proof (cases rule: create_support_ticket_cases)
    case (early x)
    with cat show ?thesis by simp
  next
    case (call_raised c x cat')
    with sev have "tc_severity c = JStr ''medium''" by simp
    with call_raised(4,9) create_ticket_text_severity show ?thesis by metis
  next
    case (returned c tid cat')
    with sev cat have c: "tc_severity c = JStr ''medium''" "cat' = ''other''" by simp_all
    have title: "tc_title c = ''Washing Machine Issue - Other''"
      using returned(4) c other by simp
    show ?thesis
    proof (cases "tid = None \<or> tid = Some []")
      case True
      with returned(6) title c show ?thesis
        by (auto simp: ticket_created_or_failed_def)
    next
      case False
      then obtain t where t: "tid = Some t" "t \<noteq> []" by auto
      from returned(6) show ?thesis
        unfolding c t kvs created_or_failed_created[OF t(2)]
        using title c medium by auto
    qed
  qed
qed

text \<open>
  \<open>handle_support_request\<close> never raises and sends exactly one reply; the reply to a
  greeting is the help; and when the classifier times out the analysis is the fallback
  and the ticket store is called with its severity and category.
\<close>

lemma handle_replies_once:
  "\<exists>log s'. handle_support_request cfg e s m = (None, log, s') \<and>
     length (replies_of log) = 1 \<and>
     (greeting (clean_content cfg m) \<longrightarrow> log = [Replied HelpEmbed] \<and> s' = s) \<and>
     (\<not> greeting (clean_content cfg m) \<and> gemini e (clean_content cfg m) = TimedOut \<longrightarrow>
        analyze_issue (gemini e) (clean_content cfg m) = fallback_response \<and>
        (\<exists>c. ticket_calls log = [c] \<and> tc_severity c = JStr ''medium'' \<and>
             tc_title c = ''Washing Machine Issue - Other'') \<and>
        (replies_of log = [TicketFailedEmbed] \<or>
         (\<exists>ticket_id next_steps. replies_of log = [TicketCreatedEmbed ticket_id ''Medium'' next_steps])))"
proof (cases "greeting (clean_content cfg m)")
  case True
  then show ?thesis by (simp add: handle_greeting)
next
  case False
  define analysis where "analysis = analyze_issue (gemini e) (clean_content cfg m)"
  have timeout: "gemini e (clean_content cfg m) = TimedOut \<Longrightarrow> analysis = fallback_response"
    unfolding analysis_def by (rule fallback_on_timeout)
  show ?thesis
  proof (cases "subscript_key analysis ''action''")
    case (Inl x)
    then have "analysis \<noteq> fallback_response" by (auto simp: fallback_response_def)
    with timeout Inl False show ?thesis
      by (auto simp: handle_no_action analysis_def)
  next
    case (Inr action)
    show ?thesis
    proof (cases "action = JStr ''provide_solution''")
      case True
      with Inr have nf: "analysis \<noteq> fallback_response" by (auto simp: fallback_response_def)
      obtain r l s1 where ssr: "send_solution_response e s m analysis = (r, l, s1)"
        by (cases "send_solution_response e s m analysis") auto
      from handle_solution[OF False Inr[unfolded analysis_def True] ssr[unfolded analysis_def]]
        send_solution_response_replies[OF ssr] nf timeout False
      show ?thesis
        by (auto simp: replies_of_append analysis_def split: option.splits)
    next
      case neq: False
      obtain r l s1 where cst: "create_support_ticket cfg e s m (clean_content cfg m) analysis = (r, l, s1)"
        by (cases "create_support_ticket cfg e s m (clean_content cfg m) analysis") auto
      have h: "handle_support_request cfg e s m =
          (None, l @ (case r of None \<Rightarrow> [] | Some x \<Rightarrow> [Replied ErrorText]), s1)"
        using handle_escalation[OF False Inr[unfolded analysis_def] neq cst[unfolded analysis_def]] .
      have len: "length (replies_of (l @ (case r of None \<Rightarrow> [] | Some x \<Rightarrow> [Replied ErrorText]))) = 1"
        using create_support_ticket_replies[OF cst]
        by (auto simp: replies_of_append split: option.splits)
      show ?thesis
      proof (cases "gemini e (clean_content cfg m) = TimedOut")
        case no: False
        with h len False show ?thesis by simp
      next
        case True
        from create_support_ticket_fallback[OF cst[unfolded timeout[OF True]]] h len False True
          timeout[OF True, unfolded analysis_def]
        show ?thesis by auto
      qed
    qed
  qed
qed

lemma py_title_text: "py_title v = Inr t \<Longrightarrow> \<exists>u. v = JStr u \<and> t = str_title u"
  by (cases v) simp_all

lemma send_solution_response_sent:
  assumes "subscript_key analysis ''response'' = Inr response"
    and "subscript_key analysis ''severity'' = Inr (JStr sev)"
    and "subscript_key analysis ''category'' = Inr (JStr cat)"
  shows "send_solution_response e s m analysis =
     (None,
      [Replied (TroubleshootingEmbed response (str_title sev) (str_title cat)),
       ReactionAdded (reply_message_id e)],
      s\<lparr>pending_tickets := (pending_tickets s)(reply_message_id e \<mapsto>
         \<lparr>ti_user_id = msg_author_id m, ti_issue = msg_content m, ti_analysis = analysis\<rparr>)\<rparr>)"
  using assms by (simp add: send_solution_response_def and_then_def)

lemma send_solution_response_raised:
  assumes "(\<forall>response. subscript_key analysis ''response'' \<noteq> Inr response) \<or>
           (\<forall>sev. subscript_key analysis ''severity'' \<noteq> Inr (JStr sev)) \<or>
           (\<forall>cat. subscript_key analysis ''category'' \<noteq> Inr (JStr cat))"
  shows "\<exists>x. send_solution_response e s m analysis = (Some x, [], s)"
proof (cases "subscript_key analysis ''response''")
  case (Inl x)
  then show ?thesis by (simp add: send_solution_response_def)
next
  case response: (Inr response)
  show ?thesis
  proof (cases "and_then (subscript_key analysis ''severity'') py_title")
    case (Inl x)
    with response show ?thesis by (simp add: send_solution_response_def)
  next
    case sev: (Inr sev_title)
    then obtain sev where s1: "subscript_key analysis ''severity'' = Inr (JStr sev)"
      by (auto simp: and_then_def split: sum.splits dest: py_title_text)
    show ?thesis
    proof (cases "and_then (subscript_key analysis ''category'') py_title")
      case (Inl x)
      with response sev show ?thesis by (simp add: send_solution_response_def)
    next
      case (Inr cat_title)
      then obtain cat where "subscript_key analysis ''category'' = Inr (JStr cat)"
        by (auto simp: and_then_def split: sum.splits dest: py_title_text)
      with response s1 assms show ?thesis by simp
    qed
  qed
qed

lemma create_support_ticket_no_category:
  assumes "\<forall>cat. dict_get analysis ''category'' (JStr ''general'') \<noteq> Inr (JStr cat)"
  shows "\<exists>x. create_support_ticket cfg e s m d analysis = (Some x, [], s)"
proof -
  obtain r l s1 where cst: "create_support_ticket cfg e s m d analysis = (r, l, s1)"
    by (metis prod_cases3)
  from cst show ?thesis
  proof (cases rule: create_support_ticket_cases)
    case (early x)
    with cst show ?thesis by simp
  next
    case (call_raised c x cat)
    with assms show ?thesis by simp
  next
    case (returned c ticket_id cat)
    with assms show ?thesis by simp
  qed
qed

lemma created_or_failed_reply:
  assumes "ticket_created_or_failed e s m d (JObj kvs) severity (JStr cat) (TicketCall c) ticket_id
      = (r, l, s1)"
  shows "ticket_calls l = [c] \<and>
    replies_of (l @ (case r of None \<Rightarrow> [] | Some x \<Rightarrow> [Replied ErrorText])) =
      [case ticket_id of
         None \<Rightarrow> TicketFailedEmbed
       | Some tid \<Rightarrow>
           if tid = [] then TicketFailedEmbed
           else (case severity of
                   JStr sev \<Rightarrow> TicketCreatedEmbed tid (str_title sev)
                     (case map_of kvs ''response'' of
                        None \<Rightarrow> JStr ''Our support team will review your issue and get back to you soon.''
                      | Some v \<Rightarrow> v)
                 | _ \<Rightarrow> ErrorText)]"
proof (cases "ticket_id = None \<or> ticket_id = Some []")
  case True
  with assms show ?thesis by (auto simp: ticket_created_or_failed_def)
next
  case False
  then obtain tid where tid: "ticket_id = Some tid" "tid \<noteq> []" by auto
  show ?thesis
  proof (cases "\<exists>sev. severity = JStr sev")
    case True
    then obtain sev where sev: "severity = JStr sev" ..
    from assms show ?thesis unfolding tid sev created_or_failed_created[OF tid(2)]
      using tid(2) by auto
  next
    case nontext: False
    then have t: "\<exists>x. py_title severity = Inl x" by (cases severity) simp_all
    have "l = [TicketCall c] \<and> r \<noteq> None"
      using assms t tid
      by (auto simp: ticket_created_or_failed_def Let_def split: sum.splits)
    with tid nontext show ?thesis by (cases severity) auto
  qed
qed

lemma create_support_ticket_reply:
  assumes cat: "dict_get analysis ''category'' (JStr ''general'') = Inr (JStr cat)"
    and cst: "create_support_ticket cfg e s m d analysis = (r, l, s1)"
  shows "\<exists>c next_steps.
     dict_get analysis ''response''
       (JStr ''Our support team will review your issue and get back to you soon.'') = Inr next_steps \<and>
     ticket_calls l = [c] \<and>
     tc_title c = ''Washing Machine Issue - '' @ str_title cat \<and>
     dict_get analysis ''severity'' (JStr ''medium'') = Inr (tc_severity c) \<and>
     tc_returned c = create_ticket (render e) (mantis_cfg cfg) (mantis e) (tc_title c)
         (tc_description c) (tc_severity c) (JStr cat) (Some (digits_of (msg_author_id m))) \<and>
     replies_of (l @ (case r of None \<Rightarrow> [] | Some x \<Rightarrow> [Replied ErrorText])) =
       [case tc_returned c of
          Inl x \<Rightarrow> ErrorText
        | Inr None \<Rightarrow> TicketFailedEmbed
        | Inr (Some tid) \<Rightarrow>
            if tid = [] then TicketFailedEmbed
            else (case tc_severity c of
                    JStr sev \<Rightarrow> TicketCreatedEmbed tid (str_title sev) next_steps
                  | _ \<Rightarrow> ErrorText)]"
proof -
  from cat obtain kvs where kvs: "analysis = JObj kvs" by (cases analysis) auto
  from cst show ?thesis
  proof (cases rule: create_support_ticket_cases)
    case (early x)
    with cat show ?thesis by simp
  next
    case (call_raised c x cat')
    with cat kvs show ?thesis by auto
  next
    case (returned c ticket_id cat')
    with cat have cc: "cat' = cat" by simp
    from created_or_failed_reply[OF returned(6)[unfolded kvs cc]] returned(1,3,4,7) cc kvs
    show ?thesis by (auto split: option.splits)
  qed
qed

text \<open>
  Claim C10, as the code has it. \<open>handle_support_request\<close> never raises and sends exactly
  one reply, which the text, the analysis and the answer of the ticket store determine:
  \<^item> the help, when the cleaned text is empty or a greeting, whatever the services would
    answer (none is asked) and with the state unchanged;
  \<^item> the error text, when the analysis is no dict or has no \<open>action\<close>;
  \<^item> for the action \<open>provide_solution\<close>: the troubleshooting steps, with the offer
    registered, when the analysis has a \<open>response\<close> and a text for \<open>severity\<close> and for
    \<open>category\<close>; the error text otherwise;
  \<^item> for any other action: the error text when the category is not a text; otherwise the
    ticket store is called once, and the reply is the error text when the call raised,
    ``Ticket Creation Failed'' when it returned \<open>None\<close> or an empty identifier, and, for
    any other identifier, ``Support Ticket Created'' when the severity is a text and the
    error text when it is not;
  \<^item> when the classifier times out, the analysis is the fallback, so the reply is
    ``Ticket Creation Failed'' or ``Support Ticket Created''.
\<close>

theorem handle_support_request_reply:
  fixes cfg :: bot_config and e :: env and s :: bot_state and m :: message
  defines "analysis \<equiv> analyze_issue (gemini e) (clean_content cfg m)"
  shows
  "(\<exists>log s'. handle_support_request cfg e s m = (None, log, s') \<and> length (replies_of log) = 1) \<and>
   (greeting (clean_content cfg m) \<longrightarrow>
      (\<forall>e'. handle_support_request cfg e' s m = (None, [Replied HelpEmbed], s))) \<and>
   (\<not> greeting (clean_content cfg m) \<longrightarrow>
      (\<forall>x. subscript_key analysis ''action'' = Inl x \<longrightarrow>
         handle_support_request cfg e s m = (None, [Replied ErrorText], s)) \<and>
      (subscript_key analysis ''action'' = Inr (JStr ''provide_solution'') \<longrightarrow>
         (\<forall>response sev cat.
            subscript_key analysis ''response'' = Inr response \<and>
            subscript_key analysis ''severity'' = Inr (JStr sev) \<and>
            subscript_key analysis ''category'' = Inr (JStr cat) \<longrightarrow>
            handle_support_request cfg e s m =
              (None,
               [Replied (TroubleshootingEmbed response (str_title sev) (str_title cat)),
                ReactionAdded (reply_message_id e)],
               s\<lparr>pending_tickets := (pending_tickets s)(reply_message_id e \<mapsto>
                  \<lparr>ti_user_id = msg_author_id m, ti_issue = msg_content m,
                   ti_analysis = analysis\<rparr>)\<rparr>)) \<and>
         ((\<forall>response. subscript_key analysis ''response'' \<noteq> Inr response) \<or>
          (\<forall>sev. subscript_key analysis ''severity'' \<noteq> Inr (JStr sev)) \<or>
          (\<forall>cat. subscript_key analysis ''category'' \<noteq> Inr (JStr cat)) \<longrightarrow>
          handle_support_request cfg e s m = (None, [Replied ErrorText], s))) \<and>
      (\<forall>action. subscript_key analysis ''action'' = Inr action \<and>
         action \<noteq> JStr ''provide_solution'' \<longrightarrow>
         ((\<forall>cat. dict_get analysis ''category'' (JStr ''general'') \<noteq> Inr (JStr cat)) \<longrightarrow>
            handle_support_request cfg e s m = (None, [Replied ErrorText], s)) \<and>
         (\<forall>cat. dict_get analysis ''category'' (JStr ''general'') = Inr (JStr cat) \<longrightarrow>
            (\<exists>log s' c next_steps.
               handle_support_request cfg e s m = (None, log, s') \<and>
               dict_get analysis ''response''
                 (JStr ''Our support team will review your issue and get back to you soon.'')
                 = Inr next_steps \<and>
               ticket_calls log = [c] \<and>
               tc_title c = ''Washing Machine Issue - '' @ str_title cat \<and>
               dict_get analysis ''severity'' (JStr ''medium'') = Inr (tc_severity c) \<and>
               tc_returned c = create_ticket (render e) (mantis_cfg cfg) (mantis e) (tc_title c)
                 (tc_description c) (tc_severity c) (JStr cat) (Some (digits_of (msg_author_id m))) \<and>
               replies_of log =
                 [case tc_returned c of
                    Inl x \<Rightarrow> ErrorText
                  | Inr None \<Rightarrow> TicketFailedEmbed
                  | Inr (Some tid) \<Rightarrow>
                      if tid = [] then TicketFailedEmbed
                      else (case tc_severity c of
                              JStr sev \<Rightarrow> TicketCreatedEmbed tid (str_title sev) next_steps
                            | _ \<Rightarrow> ErrorText)]))) \<and>
      (gemini e (clean_content cfg m) = TimedOut \<longrightarrow>
         analysis = fallback_response \<and>
         (\<exists>log s' c. handle_support_request cfg e s m = (None, log, s') \<and>
            ticket_calls log = [c] \<and> tc_severity c = JStr ''medium'' \<and>
            tc_title c = ''Washing Machine Issue - Other'' \<and>
            (replies_of log = [TicketFailedEmbed] \<or>
             (\<exists>ticket_id next_steps.
                replies_of log = [TicketCreatedEmbed ticket_id ''Medium'' next_steps])))))"
proof (intro conjI impI allI)
  show "\<exists>log s'. handle_support_request cfg e s m = (None, log, s') \<and> length (replies_of log) = 1"
    using handle_replies_once[of cfg e s m] by blast
next
  fix e' assume "greeting (clean_content cfg m)"
  then show "handle_support_request cfg e' s m = (None, [Replied HelpEmbed], s)"
    by (rule handle_greeting)
next
  fix x assume "\<not> greeting (clean_content cfg m)" "subscript_key analysis ''action'' = Inl x"
  then show "handle_support_request cfg e s m = (None, [Replied ErrorText], s)"
    unfolding analysis_def by (rule handle_no_action)
next
  fix response sev cat
  assume g: "\<not> greeting (clean_content cfg m)"
    and a: "subscript_key analysis ''action'' = Inr (JStr ''provide_solution'')"
    and f: "subscript_key analysis ''response'' = Inr response \<and>
            subscript_key analysis ''severity'' = Inr (JStr sev) \<and>
            subscript_key analysis ''category'' = Inr (JStr cat)"
  from f have "send_solution_response e s m analysis =
     (None,
      [Replied (TroubleshootingEmbed response (str_title sev) (str_title cat)),
       ReactionAdded (reply_message_id e)],
      s\<lparr>pending_tickets := (pending_tickets s)(reply_message_id e \<mapsto>
         \<lparr>ti_user_id = msg_author_id m, ti_issue = msg_content m, ti_analysis = analysis\<rparr>)\<rparr>)"
    by (intro send_solution_response_sent) simp_all
  from handle_solution[OF g a[unfolded analysis_def] this[unfolded analysis_def]]
  show "handle_support_request cfg e s m =
              (None,
               [Replied (TroubleshootingEmbed response (str_title sev) (str_title cat)),
                ReactionAdded (reply_message_id e)],
               s\<lparr>pending_tickets := (pending_tickets s)(reply_message_id e \<mapsto>
                  \<lparr>ti_user_id = msg_author_id m, ti_issue = msg_content m,
                   ti_analysis = analysis\<rparr>)\<rparr>)"
    by (simp add: analysis_def)
next
  assume g: "\<not> greeting (clean_content cfg m)"
    and a: "subscript_key analysis ''action'' = Inr (JStr ''provide_solution'')"
    and f: "(\<forall>response. subscript_key analysis ''response'' \<noteq> Inr response) \<or>
          (\<forall>sev. subscript_key analysis ''severity'' \<noteq> Inr (JStr sev)) \<or>
          (\<forall>cat. subscript_key analysis ''category'' \<noteq> Inr (JStr cat))"
  from send_solution_response_raised[OF f] obtain x where
    "send_solution_response e s m analysis = (Some x, [], s)" by blast
  from handle_solution[OF g a[unfolded analysis_def] this[unfolded analysis_def]]
  show "handle_support_request cfg e s m = (None, [Replied ErrorText], s)" by simp
next
  fix action
  assume g: "\<not> greeting (clean_content cfg m)"
    and a: "subscript_key analysis ''action'' = Inr action \<and> action \<noteq> JStr ''provide_solution''"
    and f: "\<forall>cat. dict_get analysis ''category'' (JStr ''general'') \<noteq> Inr (JStr cat)"
  from create_support_ticket_no_category[OF f] obtain x where
    "create_support_ticket cfg e s m (clean_content cfg m) analysis = (Some x, [], s)" by blast
  from handle_escalation[OF g conjunct1[OF a, unfolded analysis_def] conjunct2[OF a]
      this[unfolded analysis_def]]
  show "handle_support_request cfg e s m = (None, [Replied ErrorText], s)" by simp
next
  fix action cat
  assume g: "\<not> greeting (clean_content cfg m)"
    and a: "subscript_key analysis ''action'' = Inr action \<and> action \<noteq> JStr ''provide_solution''"
    and cat: "dict_get analysis ''category'' (JStr ''general'') = Inr (JStr cat)"
  obtain r l s1 where cst: "create_support_ticket cfg e s m (clean_content cfg m) analysis = (r, l, s1)"
    by (metis prod_cases3)
  have h: "handle_support_request cfg e s m =
      (None, l @ (case r of None \<Rightarrow> [] | Some x \<Rightarrow> [Replied ErrorText]), s1)"
    using handle_escalation[OF g conjunct1[OF a, unfolded analysis_def] conjunct2[OF a]
      cst[unfolded analysis_def]] .
  have calls: "ticket_calls (l @ (case r of None \<Rightarrow> [] | Some x \<Rightarrow> [Replied ErrorText])) = ticket_calls l"
    by (simp add: ticket_calls_append split: option.splits)
  from create_support_ticket_reply[OF cat cst] h calls
  show "\<exists>log s' c next_steps.
               handle_support_request cfg e s m = (None, log, s') \<and>
               dict_get analysis ''response''
                 (JStr ''Our support team will review your issue and get back to you soon.'')
                 = Inr next_steps \<and>
               ticket_calls log = [c] \<and>
               tc_title c = ''Washing Machine Issue - '' @ str_title cat \<and>
               dict_get analysis ''severity'' (JStr ''medium'') = Inr (tc_severity c) \<and>
               tc_returned c = create_ticket (render e) (mantis_cfg cfg) (mantis e) (tc_title c)
                 (tc_description c) (tc_severity c) (JStr cat) (Some (digits_of (msg_author_id m))) \<and>
               replies_of log =
                 [case tc_returned c of
                    Inl x \<Rightarrow> ErrorText
                  | Inr None \<Rightarrow> TicketFailedEmbed
                  | Inr (Some tid) \<Rightarrow>
                      if tid = [] then TicketFailedEmbed
                      else (case tc_severity c of
                              JStr sev \<Rightarrow> TicketCreatedEmbed tid (str_title sev) next_steps
                            | _ \<Rightarrow> ErrorText)]"
    by (metis (no_types, lifting))
next
  assume "\<not> greeting (clean_content cfg m)" "gemini e (clean_content cfg m) = TimedOut"
  then show "analysis = fallback_response"
    using handle_replies_once[of cfg e s m] unfolding analysis_def by blast
next
  assume "\<not> greeting (clean_content cfg m)" "gemini e (clean_content cfg m) = TimedOut"
  then show "\<exists>log s' c. handle_support_request cfg e s m = (None, log, s') \<and>
            ticket_calls log = [c] \<and> tc_severity c = JStr ''medium'' \<and>
            tc_title c = ''Washing Machine Issue - Other'' \<and>
            (replies_of log = [TicketFailedEmbed] \<or>
             (\<exists>ticket_id next_steps.
                replies_of log = [TicketCreatedEmbed ticket_id ''Medium'' next_steps]))"
    using handle_replies_once[of cfg e s m] by blast
qed

lemma example_clean_content: "clean_content example_config (example_message t) = t"
  by (simp add: clean_content_def example_message_def)

lemma example_store_created:
  "create_ticket (render (example_env classifier (mantis_created (JStr tid))))
     (mantis_cfg example_config) (mantis (example_env classifier (mantis_created (JStr tid))))
     title description (JStr sev) category user_id = Inr (Some tid)"
  by (simp add: create_ticket_def example_env_def example_config_def mantis_created_def
      issue_id_of_def unset_def and_then_def)

theorem handle_support_request_reply_witness:
  \<open>handle_support_request example_config (example_env TimedOut Failed) initial_state
     (example_message ''Hello'') = (None, [Replied HelpEmbed], initial_state) \<and>
   handle_support_request example_config
     (example_env (gemini_reply ''{"severity": "high"}'') Failed) initial_state
     (example_message ''it leaks'') = (None, [Replied ErrorText], initial_state) \<and>
   handle_support_request example_config
     (example_env (gemini_reply ''{"action": "provide_solution", "response": "push it", "severity": "low", "category": "door", "urgency": "normal"}'') Failed)
     initial_state (example_message ''my door is stuck'') =
     (None, [Replied (TroubleshootingEmbed (JStr ''push it'') ''Low'' ''Door''), ReactionAdded 7],
      example_offer_state) \<and>
   handle_support_request example_config
     (example_env (gemini_reply ''{"action": "provide_solution"}'') Failed) initial_state
     (example_message ''it leaks'') = (None, [Replied ErrorText], initial_state) \<and>
   handle_support_request example_config
     (example_env (gemini_reply ''{"action": "create_ticket", "category": 5}'') Failed) initial_state
     (example_message ''it leaks'') = (None, [Replied ErrorText], initial_state) \<and>
   replies_of (fst (snd (handle_support_request example_config
     (example_env
        (gemini_reply ''{"action": "create_ticket", "response": "call us", "severity": "high", "category": "mechanical", "urgency": "high"}'')
        (mantis_created (JStr ''T-42'')))
     initial_state (example_message ''water leaking everywhere'')))) =
     [TicketCreatedEmbed ''T-42'' ''High'' (JStr ''call us'')] \<and>
   map tc_title (ticket_calls (fst (snd (handle_support_request example_config
     (example_env TimedOut Failed) initial_state (example_message ''it leaks''))))) =
     [''Washing Machine Issue - Other'']\<close>
proof -
  note c = example_clean_content
  have g: "greeting ''Hello''" and ng: "\<not> greeting ''it leaks''"
    "\<not> greeting ''my door is stuck''" "\<not> greeting ''water leaking everywhere''"
    by code_simp+
  have titles: "str_title ''low'' = ''Low''" "str_title ''door'' = ''Door''"
    "str_title ''high'' = ''High''"
    by code_simp+
  have gem: "gemini (example_env classifier store) t = classifier" for classifier store t
    by (simp add: example_env_def)
  have rid: "reply_message_id (example_env classifier store) = 7" for classifier store
    by (simp add: example_env_def)
  have a1: \<open>analyze_issue (\<lambda>t. gemini_reply ''{"severity": "high"}'') ''it leaks'' =
      JObj [(''severity'', JStr ''high'')]\<close> by code_simp
  have a2: \<open>analyze_issue (\<lambda>t. gemini_reply ''{"action": "provide_solution", "response": "push it", "severity": "low", "category": "door", "urgency": "normal"}'') ''my door is stuck'' =
      JObj [(''action'', JStr ''provide_solution''), (''response'', JStr ''push it''),
            (''severity'', JStr ''low''), (''category'', JStr ''door''),
            (''urgency'', JStr ''normal'')]\<close> by code_simp
  have a3: \<open>analyze_issue (\<lambda>t. gemini_reply ''{"action": "provide_solution"}'') ''it leaks'' =
      JObj [(''action'', JStr ''provide_solution'')]\<close> by code_simp
  have a4: \<open>analyze_issue (\<lambda>t. gemini_reply ''{"action": "create_ticket", "category": 5}'') ''it leaks'' =
      JObj [(''action'', JStr ''create_ticket''), (''category'', JInt 5)]\<close> by code_simp
  have a5: \<open>analyze_issue (\<lambda>t. gemini_reply ''{"action": "create_ticket", "response": "call us", "severity": "high", "category": "mechanical", "urgency": "high"}'') ''water leaking everywhere'' =
      JObj [(''action'', JStr ''create_ticket''), (''response'', JStr ''call us''),
            (''severity'', JStr ''high''), (''category'', JStr ''mechanical''),
            (''urgency'', JStr ''high'')]\<close> by code_simp
  have gem': "gemini (example_env classifier store) = (\<lambda>t. classifier)" for classifier store
    by (simp add: example_env_def)
  have w1: "handle_support_request example_config (example_env TimedOut Failed) initial_state
     (example_message ''Hello'') = (None, [Replied HelpEmbed], initial_state)"
    using handle_support_request_reply [where cfg = example_config and e = "example_env TimedOut Failed"
        and s = initial_state and m = "example_message ''Hello''"] g
    by (simp add: c)
  have w2: \<open>handle_support_request example_config
     (example_env (gemini_reply ''{"severity": "high"}'') Failed) initial_state
     (example_message ''it leaks'') = (None, [Replied ErrorText], initial_state)\<close>
    using handle_support_request_reply [where cfg = example_config
        and e = \<open>example_env (gemini_reply ''{"severity": "high"}'') Failed\<close>
        and s = initial_state and m = "example_message ''it leaks''"] ng
    by (simp add: c gem' a1)
  have offer: "initial_state\<lparr>pending_tickets := (pending_tickets initial_state)(7 \<mapsto>
         \<lparr>ti_user_id = msg_author_id (example_message ''my door is stuck''),
          ti_issue = msg_content (example_message ''my door is stuck''),
          ti_analysis = JObj [(''action'', JStr ''provide_solution''), (''response'', JStr ''push it''),
            (''severity'', JStr ''low''), (''category'', JStr ''door''),
            (''urgency'', JStr ''normal'')]\<rparr>)\<rparr> = example_offer_state"
    by (simp add: example_offer_state_def example_message_def initial_state_def)
  have \<open>handle_support_request example_config
     (example_env (gemini_reply ''{"action": "provide_solution", "response": "push it", "severity": "low", "category": "door", "urgency": "normal"}'') Failed)
     initial_state (example_message ''my door is stuck'') =
     (None, [Replied (TroubleshootingEmbed (JStr ''push it'') ''Low'' ''Door''), ReactionAdded 7],
      initial_state\<lparr>pending_tickets := (pending_tickets initial_state)(7 \<mapsto>
         \<lparr>ti_user_id = msg_author_id (example_message ''my door is stuck''),
          ti_issue = msg_content (example_message ''my door is stuck''),
          ti_analysis = JObj [(''action'', JStr ''provide_solution''), (''response'', JStr ''push it''),
            (''severity'', JStr ''low''), (''category'', JStr ''door''),
            (''urgency'', JStr ''normal'')]\<rparr>)\<rparr>)\<close>
    using handle_support_request_reply [where cfg = example_config
        and e = \<open>example_env (gemini_reply ''{"action": "provide_solution", "response": "push it", "severity": "low", "category": "door", "urgency": "normal"}'') Failed\<close>
        and s = initial_state and m = "example_message ''my door is stuck''"] ng
    by (simp add: c gem' a2 rid titles)
  then have w3: \<open>handle_support_request example_config
     (example_env (gemini_reply ''{"action": "provide_solution", "response": "push it", "severity": "low", "category": "door", "urgency": "normal"}'') Failed)
     initial_state (example_message ''my door is stuck'') =
     (None, [Replied (TroubleshootingEmbed (JStr ''push it'') ''Low'' ''Door''), ReactionAdded 7],
      example_offer_state)\<close>
    unfolding offer .
  have w4: \<open>handle_support_request example_config
     (example_env (gemini_reply ''{"action": "provide_solution"}'') Failed) initial_state
     (example_message ''it leaks'') = (None, [Replied ErrorText], initial_state)\<close>
    using handle_support_request_reply [where cfg = example_config
        and e = \<open>example_env (gemini_reply ''{"action": "provide_solution"}'') Failed\<close>
        and s = initial_state and m = "example_message ''it leaks''"] ng
    by (simp add: c gem' a3)
  have w5: \<open>handle_support_request example_config
     (example_env (gemini_reply ''{"action": "create_ticket", "category": 5}'') Failed) initial_state
     (example_message ''it leaks'') = (None, [Replied ErrorText], initial_state)\<close>
    using handle_support_request_reply [where cfg = example_config
        and e = \<open>example_env (gemini_reply ''{"action": "create_ticket", "category": 5}'') Failed\<close>
        and s = initial_state and m = "example_message ''it leaks''"] ng
    by (simp add: c gem' a4)
  let ?E = \<open>example_env
        (gemini_reply ''{"action": "create_ticket", "response": "call us", "severity": "high", "category": "mechanical", "urgency": "high"}'')
        (mantis_created (JStr ''T-42''))\<close>
  let ?M = "example_message ''water leaking everywhere''"
  let ?A = "analyze_issue (gemini ?E) (clean_content example_config ?M)"
  have A: "?A = JObj [(''action'', JStr ''create_ticket''), (''response'', JStr ''call us''),
            (''severity'', JStr ''high''), (''category'', JStr ''mechanical''),
            (''urgency'', JStr ''high'')]"
    by (simp add: c gem' a5)
  have ng6: "\<not> greeting (clean_content example_config ?M)" using ng by (simp add: c)
  have act: "subscript_key ?A ''action'' = Inr (JStr ''create_ticket'') \<and>
      JStr ''create_ticket'' \<noteq> JStr ''provide_solution''"
    unfolding A by simp
  have cat: "dict_get ?A ''category'' (JStr ''general'') = Inr (JStr ''mechanical'')"
    unfolding A by simp
  note T = handle_support_request_reply [where cfg = example_config and e = ?E
        and s = initial_state and m = ?M]
  note T3 = T [THEN conjunct2, THEN conjunct2, THEN mp, OF ng6]
  note T33 = T3 [THEN conjunct2, THEN conjunct2, THEN conjunct1, THEN spec, THEN mp, OF act]
  note T332 = T33 [THEN conjunct2, THEN spec, THEN mp, OF cat]
  from T332 have w6: "replies_of (fst (snd (handle_support_request example_config ?E initial_state ?M))) =
     [TicketCreatedEmbed ''T-42'' ''High'' (JStr ''call us'')]"
  proof (elim exE conjE)
    fix log s' c next_steps
    assume h: "handle_support_request example_config ?E initial_state ?M = (None, log, s')"
      and nx: "dict_get ?A ''response''
        (JStr ''Our support team will review your issue and get back to you soon.'') = Inr next_steps"
      and sv: "dict_get ?A ''severity'' (JStr ''medium'') = Inr (tc_severity c)"
      and ret: "tc_returned c = create_ticket (render ?E) (mantis_cfg example_config) (mantis ?E)
        (tc_title c) (tc_description c) (tc_severity c) (JStr ''mechanical'')
        (Some (digits_of (msg_author_id ?M)))"
      and rep: "replies_of log =
        [case tc_returned c of
           Inl x \<Rightarrow> ErrorText
         | Inr None \<Rightarrow> TicketFailedEmbed
         | Inr (Some tid) \<Rightarrow>
             if tid = [] then TicketFailedEmbed
             else (case tc_severity c of
                     JStr sev \<Rightarrow> TicketCreatedEmbed tid (str_title sev) next_steps
                   | _ \<Rightarrow> ErrorText)]"
    from sv have sev: "tc_severity c = JStr ''high''" unfolding A by simp
    from nx have next_steps: "next_steps = JStr ''call us''" unfolding A by simp
    from ret have "tc_returned c = Inr (Some ''T-42'')" unfolding sev example_store_created .
    with rep sev next_steps titles
    have "replies_of log = [TicketCreatedEmbed ''T-42'' ''High'' (JStr ''call us'')]"
      by simp
    with h show ?thesis by simp
  qed
  have w7: "map tc_title (ticket_calls (fst (snd (handle_support_request example_config
     (example_env TimedOut Failed) initial_state (example_message ''it leaks''))))) =
     [''Washing Machine Issue - Other'']"
    using handle_support_request_reply [where cfg = example_config
        and e = "example_env TimedOut Failed"
        and s = initial_state and m = "example_message ''it leaks''"] ng
    by (auto simp: c gem')
  from w1 w2 w3 w4 w5 w6 w7 show ?thesis by (intro conjI)
qed

text \<open>
  Claim C10 as stated fails: the reply to a greeting is the help, and the reply to an
  analysis without \<open>action\<close>, or with \<open>provide_solution\<close> but without the other fields,
  is the error text; neither is one of the three results.
\<close>

theorem handle_three_results_counterexample:
  \<open>replies_of (fst (snd (handle_support_request example_config
       (example_env (gemini_reply ''{"action": "provide_solution"}'') Failed)
       initial_state (example_message ''hi'')))) = [HelpEmbed] \<and>
   replies_of (fst (snd (handle_support_request example_config
       (example_env (gemini_reply ''{"severity": "high"}'') Failed)
       initial_state (example_message ''it leaks'')))) = [ErrorText] \<and>
   replies_of (fst (snd (handle_support_request example_config
       (example_env (gemini_reply ''{"action": "provide_solution"}'') Failed)
       initial_state (example_message ''it leaks'')))) = [ErrorText]\<close>
  by code_simp

section \<open>Reactions\<close>

text \<open>
  A ticket never touches the pending offers, and an offer is only registered after its
  severity and category were put in title case, so in every reachable state the analysis
  of every pending offer has a text for both. For such an analysis
  \<open>create_support_ticket\<close> does not raise and calls the ticket store once.
\<close>

lemma create_support_ticket_pending:
  assumes "create_support_ticket cfg e s m d analysis = (raised, log, s')"
  shows "pending_tickets s' = pending_tickets s"
  using assms
proof (cases rule: create_support_ticket_cases)
  case (returned c ticket_id cat)
  from created_or_failed_pending[OF returned(6)] show ?thesis .
qed simp_all

lemma create_support_ticket_calls:
  assumes "create_support_ticket cfg e s m d analysis = (raised, log, s')"
    and "c \<in> set (ticket_calls log)"
  shows "tc_pending c = pending_tickets s"
  using assms(1)
proof (cases rule: create_support_ticket_cases)
  case (early x)
  with assms(2) show ?thesis by simp
next
  case (call_raised c' x cat)
  with assms(2) show ?thesis by simp
next
  case (returned c' ticket_id cat)
  from created_or_failed_log[OF returned(6)] assms(2) have "c' = c" by simp
  with returned show ?thesis by simp
qed







lemma on_reaction_add_other:
  assumes "pending_tickets s message_id = Some info"
    and "user_ident user \<noteq> ti_user_id info"
  shows "on_reaction_add cfg e s emoji message_id channel user = (None, [], s)"
  using assms by (simp add: on_reaction_add_def)



lemma on_reaction_add_owner:
  assumes "pending_tickets s message_id = Some info"
    and "ti_user_id info = user_ident user" and "\<not> user_is_bot user"
    and "create_support_ticket cfg e s
           \<lparr>msg_content = ti_issue info,
            msg_author_id = user_ident user,
            msg_author_mention = user_mention user,
            msg_author_display_name = user_display_name user,
            msg_channel_mention = channel,
            msg_mentions_bot = False\<rparr>
           (ti_issue info) (ti_analysis info) = (r, l, s1)"
  shows "on_reaction_add cfg e s ticket_emoji message_id channel user =
     (case r of
        Some x \<Rightarrow> (Some x, l, s1)
      | None \<Rightarrow> (None, l, s1\<lparr>pending_tickets := (pending_tickets s1)(message_id := None)\<rparr>))"
  using assms create_support_ticket_pending[OF assms(4)]
  by (simp add: on_reaction_add_def split: option.splits)



text \<open>
  Claim C4. A reaction by a user who is not the owner of a pending offer is ignored:
  the handler returns without raising, it calls and sends nothing (so no ticket is
  created), and the state is the one before, with the offer still pending. This holds
  whatever the emoji is and whatever the services would have answered.
\<close>

theorem foreign_reaction_ignored:
  assumes "pending_tickets s message_id = Some info"
    and "user_ident user \<noteq> ti_user_id info"
  shows "on_reaction_add cfg e s emoji message_id channel user = (None, [], s)"
  using assms by (rule on_reaction_add_other)

theorem foreign_reaction_ignored_witness:
  "pending_tickets example_offer_state 7 \<noteq> None \<and>
   on_reaction_add example_config (example_env Failed (mantis_created (JInt 42)))
     example_offer_state ticket_emoji 7 None (example_user 6) = (None, [], example_offer_state)"
  using foreign_reaction_ignored [of example_offer_state 7 _ "example_user 6" example_config
      "example_env Failed (mantis_created (JInt 42))" ticket_emoji None]
  by (simp add: example_offer_state_def example_user_def)


text \<open>
  Claim C5, as the code has it. When the owner reacts to a pending offer and the handler
  returns normally, the ticket store was called once, with the offer still among the
  pending ones at the moment of the call; the offer is removed afterwards, once the
  ticket has been created or its creation has failed.
\<close>

theorem offer_removed_after_creation:
  assumes "pending_tickets s message_id = Some info"
    and "ti_user_id info = user_ident user" and "\<not> user_is_bot user"
    and "on_reaction_add cfg e s ticket_emoji message_id channel user = (None, log, s')"
  shows "(\<exists>c. ticket_calls log = [c] \<and> tc_pending c message_id = Some info) \<and>
         pending_when_called log message_id = [True] \<and>
         pending_tickets s' message_id = None"
proof -
  obtain r l s1 where cst: "create_support_ticket cfg e s
           \<lparr>msg_content = ti_issue info,
            msg_author_id = user_ident user,
            msg_author_mention = user_mention user,
            msg_author_display_name = user_display_name user,
            msg_channel_mention = channel,
            msg_mentions_bot = False\<rparr>
           (ti_issue info) (ti_analysis info) = (r, l, s1)"
    by (metis prod_cases3)
  from on_reaction_add_owner[OF assms(1,2,3) cst] assms(4)
  have r: "r = None" and log: "log = l"
    and s': "s' = s1\<lparr>pending_tickets := (pending_tickets s1)(message_id := None)\<rparr>"
    by (auto split: option.splits)
  from cst r have "\<exists>c. ticket_calls l = [c]"
  proof (cases rule: create_support_ticket_cases)
    case (returned c ticket_id cat)
    from created_or_failed_log[OF returned(6)] show ?thesis by simp
  qed simp_all
  then obtain c where c: "ticket_calls l = [c]" ..
  with create_support_ticket_calls[OF cst, of c] have "tc_pending c = pending_tickets s" by simp
  with c log s' assms(1) show ?thesis by (simp add: pending_when_called_def)
qed

theorem offer_removed_after_creation_witness:
  "pending_when_called (fst (snd (on_reaction_add example_config
       (example_env Failed (mantis_created (JInt 42))) example_offer_state ticket_emoji 7 None
       (example_user 5)))) 7 = [True] \<and>
   pending_tickets (snd (snd (on_reaction_add example_config
       (example_env Failed (mantis_created (JInt 42))) example_offer_state ticket_emoji 7 None
       (example_user 5)))) 7 = None"
proof -
  let ?X = "on_reaction_add example_config
       (example_env Failed (mantis_created (JInt 42))) example_offer_state ticket_emoji 7 None
       (example_user 5)"
  have raised: "fst ?X = None" by code_simp
  have offer: "pending_tickets example_offer_state 7 = Some
      \<lparr>ti_user_id = 5, ti_issue = ''my door is stuck'',
       ti_analysis = JObj
         [(''action'', JStr ''provide_solution''), (''response'', JStr ''push it''),
          (''severity'', JStr ''low''), (''category'', JStr ''door''),
          (''urgency'', JStr ''normal'')]\<rparr>"
    by (simp add: example_offer_state_def)
  have "?X = (None, fst (snd ?X), snd (snd ?X))" using raised by (metis prod.collapse)
  from offer_removed_after_creation [OF offer _ _ this]
  show ?thesis by (simp add: example_user_def)
qed

text \<open>
  Claim C5 as stated fails: in a reaction that ends with a ticket created, the offer is
  still pending when the call to the ticket store is issued.
\<close>

theorem offer_removed_first_counterexample:
  "pending_when_called (fst (snd (on_reaction_add example_config
       (example_env Failed (mantis_created (JInt 42))) example_offer_state ticket_emoji 7 None
       (example_user 5)))) 7 = [True] \<and>
   replies_of (fst (snd (on_reaction_add example_config
       (example_env Failed (mantis_created (JInt 42))) example_offer_state ticket_emoji 7 None
       (example_user 5)))) = [TicketCreatedEmbed ''42'' ''Low'' (JStr ''push it'')]"
  by code_simp



lemma create_support_ticket_resumed_same:
  "create_support_ticket_resumed cfg e s s m d analysis = create_support_ticket cfg e s m d analysis"
  by (simp add: create_support_ticket_resumed_def create_support_ticket_def)

lemma on_reaction_add_resumed_same:
  "on_reaction_add_resumed cfg e s s emoji message_id channel user =
   on_reaction_add cfg e s emoji message_id channel user"
  unfolding on_reaction_add_resumed_def on_reaction_add_def create_support_ticket_resumed_same
  by (rule refl)


end
